theory Spec2Isabelle
  imports Main "HOL-Library.Sublist"
begin

section \<open>Go values shared by the controller and the importer\<close>

text \<open>
  Go errors are values.  The controller builds them with \<^verbatim>\<open>errors.Errorf\<close>,
  \<^verbatim>\<open>errors.Wrap\<close> and \<^verbatim>\<open>errors.Wrapf\<close>, receives API status errors from the cluster
  client, and receives \<^verbatim>\<open>wait.ErrWaitTimeout\<close> from the poll helper.  A formatted message
  is kept as its format string together with its arguments; \<^verbatim>\<open>nil\<close> is \<open>None\<close> of
  \<open>go_error option\<close>.  Calls to the logger have no effect on any result and are left out.
\<close>

datatype status_reason = StatusReasonNotFound | StatusReasonConflict | StatusReasonOther string

datatype go_error =
    StatusError status_reason
  | Errorf string "string list"
  | Wrapf go_error string "string list"
  | ErrWaitTimeout

text \<open>\<^verbatim>\<open>apierrs.IsNotFound\<close> and \<^verbatim>\<open>apierrs.IsConflict\<close> look at the reason of an API
  status error; every other error (also \<^verbatim>\<open>nil\<close>) has the reason unknown.\<close>

fun IsNotFound :: "go_error option \<Rightarrow> bool" where
  "IsNotFound (Some (StatusError r)) = (r = StatusReasonNotFound)"
| "IsNotFound _ = False"

fun IsConflict :: "go_error option \<Rightarrow> bool" where
  "IsConflict (Some (StatusError r)) = (r = StatusReasonConflict)"
| "IsConflict _ = False"

subsection \<open>\<^verbatim>\<open>strings.Split\<close>\<close>

text \<open>
  \<^verbatim>\<open>strings.Index(s, sep)\<close>: the byte offset of the first occurrence of \<open>sep\<close> in
  \<open>s\<close>, \<open>None\<close> for Go's \<open>-1\<close>.
\<close>

fun Index :: "string \<Rightarrow> string \<Rightarrow> nat option" where
  "Index [] sep = (if sep = [] then Some 0 else None)"
| "Index (c # s) sep =
     (if prefix sep (c # s) then Some 0 else map_option Suc (Index s sep))"

lemma Index_bound: "Index s sep = Some m \<Longrightarrow> m + length sep \<le> length s"
proof (induction s arbitrary: m)
  case Nil
  then show ?case by (simp split: if_splits)
next
  case (Cons c s)
  show ?case
  proof (cases "prefix sep (c # s)")
    case True
    with Cons.prems have "m = 0" by simp
    with prefix_length_le [OF True] show ?thesis by simp
  next
    case False
    with Cons.prems obtain k where k: "Index s sep = Some k" "m = Suc k"
      by auto
    from Cons.IH [OF k(1)] k(2) show ?thesis by simp
  qed
qed

text \<open>
  \<^verbatim>\<open>genSplit(s, sep, 0, -1)\<close> for a non-empty separator: cut at every occurrence found
  from left to right; the rest after the last occurrence is the last element.  A string
  without the separator is returned whole, as a slice of length one.
\<close>

function splitSep :: "string \<Rightarrow> string \<Rightarrow> string list" where
  "splitSep s sep =
     (if sep = [] then [s]
      else case Index s sep of
             None \<Rightarrow> [s]
           | Some m \<Rightarrow> take m s # splitSep (drop (m + length sep) s) sep)"
  by pat_completeness auto
termination
proof (relation "measure (\<lambda>(s, sep). length s)")
  show "wf (measure (\<lambda>(s, sep). length s))" by simp
next
  fix s sep :: string and m :: nat
  assume ne: "sep \<noteq> []" and ix: "Index s sep = Some m"
  from Index_bound [OF ix] ne have "0 < length s" "0 < m + length sep"
    by (cases s; simp)+
  then show "((drop (m + length sep) s, sep), (s, sep)) \<in> measure (\<lambda>(s, sep). length s)"
    by simp
qed

declare splitSep.simps [simp del]

text \<open>
  \<^verbatim>\<open>utf8.DecodeRuneInString\<close>, as far as \<^verbatim>\<open>explode\<close> needs it: the number of bytes of
  the first rune of a non-empty string and whether the rune is the error rune (an invalid
  encoding is one byte long and decodes to \<^verbatim>\<open>utf8.RuneError\<close>).
\<close>

definition byte_in :: "char \<Rightarrow> nat \<Rightarrow> nat \<Rightarrow> bool" where
  "byte_in c lo hi = (lo \<le> of_char c \<and> of_char c \<le> (hi::nat))"

definition firstByte :: "char \<Rightarrow> (nat \<times> nat \<times> nat) option" where
  "firstByte c =
     (let b = (of_char c :: nat) in
      if b < 0x80 then None
      else if b < 0xC2 then None
      else if b \<le> 0xDF then Some (2, 0x80, 0xBF)
      else if b = 0xE0 then Some (3, 0xA0, 0xBF)
      else if b \<le> 0xEC then Some (3, 0x80, 0xBF)
      else if b = 0xED then Some (3, 0x80, 0x9F)
      else if b \<le> 0xEF then Some (3, 0x80, 0xBF)
      else if b = 0xF0 then Some (4, 0x90, 0xBF)
      else if b \<le> 0xF3 then Some (4, 0x80, 0xBF)
      else if b = 0xF4 then Some (4, 0x80, 0x8F)
      else None)"

definition RuneErrorString :: string where
  "RuneErrorString = [char_of (0xEF::nat), char_of (0xBF::nat), char_of (0xBD::nat)]"

fun DecodeRuneInString :: "string \<Rightarrow> nat \<times> bool" where
  "DecodeRuneInString [] = (0, True)"
| "DecodeRuneInString (s0 # rest) =
     (case firstByte s0 of
        None \<Rightarrow> (1, \<not> (of_char s0 :: nat) < 0x80)
      | Some (sz, lo, hi) \<Rightarrow>
          if length (s0 # rest) < sz then (1, True)
          else if \<not> byte_in (rest ! 0) lo hi then (1, True)
          else if sz \<le> 2 then (2, False)
          else if \<not> byte_in (rest ! 1) 0x80 0xBF then (1, True)
          else if sz \<le> 3 then (3, take 3 (s0 # rest) = RuneErrorString)
          else if \<not> byte_in (rest ! 2) 0x80 0xBF then (1, True)
          else (4, False))"

lemma DecodeRuneInString_size:
  "s \<noteq> [] \<Longrightarrow> 0 < fst (DecodeRuneInString s)"
  by (cases s) (auto split: option.splits)

text \<open>
  \<^verbatim>\<open>explode(s, -1)\<close>: one element per rune; every element but the last is replaced by
  the encoding of the error rune when its rune decodes to the error rune, and the last
  element is what remains of the string.
\<close>

function explode :: "string \<Rightarrow> string list" where
  "explode s =
     (if s = [] then []
      else let size = fst (DecodeRuneInString s) in
           if drop size s = [] then [s]
           else (if snd (DecodeRuneInString s) then RuneErrorString else take size s)
                # explode (drop size s))"
  by pat_completeness auto
termination
proof (relation "measure length")
  show "wf (measure length)" by simp
next
  fix s :: string and n :: nat
  assume "s \<noteq> []" and "n = fst (DecodeRuneInString s)"
  then show "(drop n s, s) \<in> measure length"
    using DecodeRuneInString_size [of s] by simp
qed

declare explode.simps [simp del]

definition Split :: "string \<Rightarrow> string \<Rightarrow> string list" where
  "Split s sep = (if sep = [] then explode s else splitSep s sep)"

section \<open>The controller's helpers (\<^verbatim>\<open>pkg/controller/util.go\<close>)\<close>

subsection \<open>Cluster objects\<close>

text \<open>
  A Go map is a reference: \<^verbatim>\<open>nil\<close> or a map.  Wherever an object is only read or built,
  its maps are values, \<open>smap option\<close>; reading a key of the \<^verbatim>\<open>nil\<close> map finds nothing.
  The metadata type is polymorphic in how a map field is held, so that the store of
  \<^verbatim>\<open>updatePVC\<close> below can hold map addresses in the same fields.  Go's struct embedding of
  \<^verbatim>\<open>ObjectMeta\<close> is record extension.
\<close>

type_synonym smap = "string \<rightharpoonup> string"

fun lookup :: "smap option \<Rightarrow> string \<Rightarrow> string option" where
  "lookup None k = None"
| "lookup (Some m) k = m k"

record OwnerReference =
  OwnerAPIVersion :: string
  OwnerKind :: string
  OwnerName :: string
  OwnerUID :: string
  BlockOwnerDeletion :: "bool option"
  Controller :: "bool option"

record 'm ObjectMeta =
  Name :: string
  GenerateName :: string
  Namespace :: string
  UID :: string
  DeletionTimestamp :: "string option"
  Annotations :: 'm
  Labels :: 'm
  OwnerReferences :: "OwnerReference list"

text \<open>The claim's spec and status are never read or written by the functions of this
  file; they are carried along as one opaque field.\<close>

record 'm PersistentVolumeClaim = "'m ObjectMeta" +
  ClaimSpecStatus :: string

record SecurityContext =
  Privileged :: "bool option"
  RunAsUser :: "int option"

record VolumeMount =
  MountName :: string
  MountPath :: string

datatype VolumeSource =
    PersistentVolumeClaimVolumeSource string bool
  | HostPathVolumeSource string

record Volume =
  VolumeName :: string
  VolumeSource :: VolumeSource

record Container =
  ContainerName :: string
  Image :: string
  ImagePullPolicy :: string
  ContainerSecurityContext :: "SecurityContext option"
  VolumeMounts :: "VolumeMount list"
  Args :: "string list"

record PodSpec =
  Containers :: "Container list"
  RestartPolicy :: string
  Volumes :: "Volume list"

record Pod = "smap option ObjectMeta" +
  Kind :: string
  APIVersion :: string
  Spec :: PodSpec

text \<open>
  The cluster client (\<^verbatim>\<open>kubernetes.Interface\<close>) is an interface of a library; it is a
  record of the four calls the helpers make, each over a client state \<open>'c\<close> (the API
  server as the client sees it) that the call may change.  Objects cross it as values:
  a call serialises the object it is given when it is made, and decodes the answer of the
  server into a new object, so it neither writes to an object of its caller nor hands one
  back.
\<close>

record 'c Interface =
  SecretsGet :: "'c \<Rightarrow> string \<Rightarrow> string \<Rightarrow> 'c \<times> go_error option"
  PodsCreate :: "'c \<Rightarrow> string \<Rightarrow> Pod \<Rightarrow> 'c \<times> (go_error + Pod)"
  ClaimsUpdate :: "'c \<Rightarrow> string \<Rightarrow> smap option PersistentVolumeClaim
                     \<Rightarrow> 'c \<times> (go_error + smap option PersistentVolumeClaim)"
  ClaimsGet :: "'c \<Rightarrow> string \<Rightarrow> string
                     \<Rightarrow> 'c \<times> (go_error + smap option PersistentVolumeClaim)"

text \<open>
  The annotation and label keys of the controller package and the names of package
  \<^verbatim>\<open>common\<close> are declared in files that are not part of the source at hand; the
  functions take them as a parameter.
\<close>

record pkg_names =
  AnnSecret :: string
  AnnCloningCreatedBy :: string
  AnnTargetPodNamespace :: string
  CloneUniqueID :: string
  CDILabelKey :: string
  CDILabelValue :: string
  CloningLabelKey :: string
  CloningLabelValue :: string
  ClonerSourcePodName :: string
  ClonerImagePath :: string
  ClonerSocketPath :: string

definition ImagePathName :: string where
  "ImagePathName = ''image-path''"

definition socketPathName :: string where
  "socketPathName = ''socket-path''"

subsection \<open>\<^verbatim>\<open>getSecretName\<close>\<close>

definition getSecretName ::
  "pkg_names \<Rightarrow> 'c Interface \<Rightarrow> 'c \<Rightarrow> smap option PersistentVolumeClaim
     \<Rightarrow> 'c \<times> string \<times> go_error option" where
  "getSecretName K client c pvc =
     (let ns = Namespace pvc in
      case lookup (Annotations pvc) (AnnSecret K) of
        None \<Rightarrow> (c, [], None)
      | Some name \<Rightarrow>
          if name = [] then (c, [], None)
          else let (c', err) = SecretsGet client c ns name in
               if IsNotFound err then (c', name, None)
               else case err of
                      Some e \<Rightarrow>
                        (c', [], Some (Wrapf e
                           (''error getting secret %q defined in pvc '' @ [CHR 0x22] @ ''%s/%s''
                              @ [CHR 0x22])
                           [name, ns, Name pvc]))
                    | None \<Rightarrow> (c', name, None))"

subsection \<open>The clone source pod\<close>

definition ParseSourcePvcAnnotation :: "string \<Rightarrow> string \<Rightarrow> string \<times> string" where
  "ParseSourcePvcAnnotation sourcePvcAnno del =
     (let strArr = Split sourcePvcAnno del in
      if length strArr < 2 then ([], [])
      else (strArr ! 0, strArr ! 1))"

definition MakeCloneSourcePodSpec ::
  "pkg_names \<Rightarrow> string \<Rightarrow> string \<Rightarrow> string \<Rightarrow> string
     \<Rightarrow> smap option PersistentVolumeClaim \<Rightarrow> Pod" where
  "MakeCloneSourcePodSpec K image_ref verbose pullPolicy sourcePvcName pvc =
     (let podName = ClonerSourcePodName K @ ''-'';
          ident = UID pvc;
          blockOwnerDeletion = True;
          isController = True
      in \<lparr> Name = [],
           GenerateName = podName,
           Namespace = [],
           UID = [],
           DeletionTimestamp = None,
           Annotations = Some [AnnCloningCreatedBy K \<mapsto> ''yes'',
                               AnnTargetPodNamespace K \<mapsto> Namespace pvc],
           Labels = Some [CDILabelKey K \<mapsto> CDILabelValue K,
                          CloningLabelKey K \<mapsto> CloningLabelValue K @ ''-'' @ ident,
                          CloneUniqueID K \<mapsto> Name pvc @ ''-source-pod''],
           OwnerReferences =
             [\<lparr> OwnerAPIVersion = ''v1'',
                 OwnerKind = ''PersistentVolumeClaim'',
                 OwnerName = Name pvc,
                 OwnerUID = UID pvc,
                 BlockOwnerDeletion = Some blockOwnerDeletion,
                 Controller = Some isController \<rparr>],
           Kind = ''Pod'',
           APIVersion = ''v1'',
           Spec =
             \<lparr> Containers =
                 [\<lparr> ContainerName = ClonerSourcePodName K,
                     Image = image_ref,
                     ImagePullPolicy = pullPolicy,
                     ContainerSecurityContext =
                       Some \<lparr> Privileged = Some True, RunAsUser = Some 0 \<rparr>,
                     VolumeMounts =
                       [\<lparr> MountName = ImagePathName, MountPath = ClonerImagePath K \<rparr>,
                        \<lparr> MountName = socketPathName,
                          MountPath = ClonerSocketPath K @ ''/'' @ ident \<rparr>],
                     Args = [''source'', ident] \<rparr>],
               RestartPolicy = ''Never'',
               Volumes =
                 [\<lparr> VolumeName = ImagePathName,
                     VolumeSource = PersistentVolumeClaimVolumeSource sourcePvcName False \<rparr>,
                  \<lparr> VolumeName = socketPathName,
                    VolumeSource = HostPathVolumeSource (ClonerSocketPath K @ ''/'' @ ident) \<rparr>] \<rparr> \<rparr>)"

definition CreateCloneSourcePod ::
  "pkg_names \<Rightarrow> 'c Interface \<Rightarrow> 'c \<Rightarrow> string \<Rightarrow> string \<Rightarrow> string \<Rightarrow> string
     \<Rightarrow> smap option PersistentVolumeClaim \<Rightarrow> 'c \<times> Pod option \<times> go_error option" where
  "CreateCloneSourcePod K client c image_ref verbose pullPolicy cr pvc =
     (let (sourcePvcNamespace, sourcePvcName) = ParseSourcePvcAnnotation cr ''/'' in
      if sourcePvcNamespace = [] \<or> sourcePvcName = []
      then (c, None, Some (Errorf ''Bad CloneRequest Annotation'' []))
      else let pod = MakeCloneSourcePodSpec K image_ref verbose pullPolicy sourcePvcName pvc in
           case PodsCreate client c sourcePvcNamespace pod of
             (c', Inl err) \<Rightarrow> (c', None, Some (Wrapf err ''source pod API create errored'' []))
           | (c', Inr pod') \<Rightarrow> (c', Some pod', None))"

subsection \<open>\<^verbatim>\<open>updatePVC\<close> over an explicit store\<close>

text \<open>
  \<^verbatim>\<open>updatePVC\<close> receives a pointer to a claim that is shared with the informer's cache,
  copies it, and mutates maps in place (\<^verbatim>\<open>addToMap\<close> writes into its first argument).
  What it may and may not change depends on which objects and maps are shared, so claims
  and maps live in a store, at addresses.  \<open>fresh\<close> is the next unused address;
  allocation takes it and moves on.  A function that dereferences an address the store
  does not hold returns \<open>None\<close>: that is Go's panic on a \<^verbatim>\<open>nil\<close> pointer.
\<close>

type_synonym addr = nat

record store =
  claims :: "addr \<rightharpoonup> addr option PersistentVolumeClaim"
  maps :: "addr \<rightharpoonup> smap"
  fresh :: addr

definition with_maps :: "'a PersistentVolumeClaim \<Rightarrow> 'b \<Rightarrow> 'b \<Rightarrow> 'b PersistentVolumeClaim" where
  "with_maps obj a l =
     \<lparr> Name = Name obj, GenerateName = GenerateName obj, Namespace = Namespace obj,
       UID = UID obj, DeletionTimestamp = DeletionTimestamp obj,
       Annotations = a, Labels = l, OwnerReferences = OwnerReferences obj,
       ClaimSpecStatus = ClaimSpecStatus obj \<rparr>"

definition alloc_map :: "store \<Rightarrow> smap \<Rightarrow> store \<times> addr" where
  "alloc_map s m = (s\<lparr>maps := (maps s)(fresh s \<mapsto> m), fresh := Suc (fresh s)\<rparr>, fresh s)"

definition alloc_claim :: "store \<Rightarrow> addr option PersistentVolumeClaim \<Rightarrow> store \<times> addr" where
  "alloc_claim s obj = (s\<lparr>claims := (claims s)(fresh s \<mapsto> obj), fresh := Suc (fresh s)\<rparr>, fresh s)"

text \<open>The generated \<^verbatim>\<open>DeepCopy\<close>: a \<^verbatim>\<open>nil\<close> map stays \<^verbatim>\<open>nil\<close>, any other map is copied
  into a new map, and the copy of the claim is a new object.\<close>

fun copy_map :: "store \<Rightarrow> addr option \<Rightarrow> (store \<times> addr option) option" where
  "copy_map s None = Some (s, None)"
| "copy_map s (Some a) =
     (case maps s a of
        None \<Rightarrow> None
      | Some m \<Rightarrow> (let (s', a') = alloc_map s m in Some (s', Some a')))"

definition DeepCopy :: "store \<Rightarrow> addr \<Rightarrow> (store \<times> addr) option" where
  "DeepCopy s p =
     (case claims s p of
        None \<Rightarrow> None
      | Some obj \<Rightarrow>
          (case copy_map s (Annotations obj) of
             None \<Rightarrow> None
           | Some (s1, a) \<Rightarrow>
               (case copy_map s1 (Labels obj) of
                  None \<Rightarrow> None
                | Some (s2, l) \<Rightarrow> Some (alloc_claim s2 (with_maps obj a l)))))"

text \<open>
  \<^verbatim>\<open>addToMap(m1, m2)\<close>: a \<^verbatim>\<open>nil\<close> \<open>m1\<close> is replaced by a new empty map; every entry of
  \<open>m2\<close> is then written into \<open>m1\<close> itself (ranging over a \<^verbatim>\<open>nil\<close> map writes nothing),
  and \<open>m1\<close> is returned.  After the loop \<open>m1\<close> holds its old entries overridden by those
  of \<open>m2\<close>, whatever the order of iteration.
\<close>

definition addToMap :: "store \<Rightarrow> addr option \<Rightarrow> addr option \<Rightarrow> (store \<times> addr option) option" where
  "addToMap s m1 m2 =
     (let (s1, a1) = (case m1 of None \<Rightarrow> alloc_map s Map.empty | Some a \<Rightarrow> (s, a)) in
      case m2 of
        None \<Rightarrow> Some (s1, Some a1)
      | Some a2 \<Rightarrow>
          (case maps s1 a1 of
             None \<Rightarrow> None
           | Some x \<Rightarrow>
               (case maps s1 a2 of
                  None \<Rightarrow> None
                | Some y \<Rightarrow> Some (s1\<lparr>maps := (maps s1)(a1 \<mapsto> x ++ y)\<rparr>, Some a1))))"

text \<open>The closure \<^verbatim>\<open>applyUpdt\<close>: for a map \<open>a\<close> that is not \<^verbatim>\<open>nil\<close> it runs
  \<^verbatim>\<open>claim.ObjectMeta.Annotations = addToMap(claim.ObjectMeta.Annotations, a)\<close>, and the
  same for the labels.\<close>

definition set_Annotations :: "store \<Rightarrow> addr \<Rightarrow> addr option \<Rightarrow> store option" where
  "set_Annotations s claim m =
     (case claims s claim of
        None \<Rightarrow> None
      | Some obj \<Rightarrow> Some (s\<lparr>claims := (claims s)(claim \<mapsto> obj\<lparr>Annotations := m\<rparr>)\<rparr>))"

definition set_Labels :: "store \<Rightarrow> addr \<Rightarrow> addr option \<Rightarrow> store option" where
  "set_Labels s claim m =
     (case claims s claim of
        None \<Rightarrow> None
      | Some obj \<Rightarrow> Some (s\<lparr>claims := (claims s)(claim \<mapsto> obj\<lparr>Labels := m\<rparr>)\<rparr>))"

definition add_Annotations :: "store \<Rightarrow> addr \<Rightarrow> addr option \<Rightarrow> store option" where
  "add_Annotations s claim a =
     (case claims s claim of
        None \<Rightarrow> None
      | Some obj \<Rightarrow>
          (case addToMap s (Annotations obj) a of
             None \<Rightarrow> None
           | Some (s', m) \<Rightarrow> set_Annotations s' claim m))"

definition add_Labels :: "store \<Rightarrow> addr \<Rightarrow> addr option \<Rightarrow> store option" where
  "add_Labels s claim l =
     (case claims s claim of
        None \<Rightarrow> None
      | Some obj \<Rightarrow>
          (case addToMap s (Labels obj) l of
             None \<Rightarrow> None
           | Some (s', m) \<Rightarrow> set_Labels s' claim m))"

definition applyUpdt :: "store \<Rightarrow> addr \<Rightarrow> addr option \<Rightarrow> addr option \<Rightarrow> store option" where
  "applyUpdt s claim a l =
     (case (if a \<noteq> None then add_Annotations s claim a else Some s) of
        None \<Rightarrow> None
      | Some s1 \<Rightarrow> if l \<noteq> None then add_Labels s1 claim l else Some s1)"

text \<open>What the client is given: the claim at an address, with the maps it points to.\<close>

fun load_map :: "store \<Rightarrow> addr option \<Rightarrow> smap option option" where
  "load_map s None = Some None"
| "load_map s (Some a) = (case maps s a of None \<Rightarrow> None | Some m \<Rightarrow> Some (Some m))"

definition load :: "store \<Rightarrow> addr \<Rightarrow> smap option PersistentVolumeClaim option" where
  "load s p =
     (case claims s p of
        None \<Rightarrow> None
      | Some obj \<Rightarrow>
          (case load_map s (Annotations obj) of
             None \<Rightarrow> None
           | Some a \<Rightarrow>
               (case load_map s (Labels obj) of
                  None \<Rightarrow> None
                | Some l \<Rightarrow> Some (with_maps obj a l))))"

text \<open>What the client returns: a new object with new maps.\<close>

fun new_map :: "store \<Rightarrow> smap option \<Rightarrow> store \<times> addr option" where
  "new_map s None = (s, None)"
| "new_map s (Some m) = (let (s', a) = alloc_map s m in (s', Some a))"

definition new_claim :: "store \<Rightarrow> smap option PersistentVolumeClaim \<Rightarrow> store \<times> addr" where
  "new_claim s v =
     (let (s1, a) = new_map s (Annotations v);
          (s2, l) = new_map s1 (Labels v)
      in alloc_claim s2 (with_maps v a l))"

text \<open>
  One call of the condition function that \<^verbatim>\<open>updatePVC\<close> hands to \<^verbatim>\<open>wait.PollImmediate\<close>.
  It never returns an error: it is done (with \<^verbatim>\<open>updtPvc\<close>), or it asks for another try
  (with the \<^verbatim>\<open>pvcCopy\<close> for that try).
\<close>

datatype 'c attempt = Done store 'c addr | Retry store 'c addr

definition attempt ::
  "'c Interface \<Rightarrow> addr \<Rightarrow> addr option \<Rightarrow> addr option \<Rightarrow> store \<Rightarrow> 'c \<Rightarrow> addr
     \<Rightarrow> 'c attempt option" where
  "attempt client pvc anno label s c pvcCopy =
     (case applyUpdt s pvcCopy anno label of
        None \<Rightarrow> None
      | Some s1 \<Rightarrow>
     (case load s1 pvcCopy of
        None \<Rightarrow> None
      | Some v \<Rightarrow>
     (case claims s1 pvc of
        None \<Rightarrow> None
      | Some orig \<Rightarrow>
     (case ClaimsUpdate client c (Namespace orig) v of
        (c1, Inr u) \<Rightarrow> (let (s2, updtPvc) = new_claim s1 u in Some (Done s2 c1 updtPvc))
      | (c1, Inl e) \<Rightarrow>
          if IsConflict (Some e)
          then (case ClaimsGet client c1 (Namespace orig) (Name orig) of
                  (c2, Inr g) \<Rightarrow> (let (s2, q) = new_claim s1 g in Some (Retry s2 c2 q))
                | (c2, Inl e2) \<Rightarrow>
                    (case DeepCopy s1 pvc of
                       None \<Rightarrow> None
                     | Some (s2, q) \<Rightarrow> Some (Retry s2 c2 q)))
          else Some (Retry s1 c1 pvcCopy)))))"

text \<open>
  \<^verbatim>\<open>wait.PollImmediate(1s, 10s, f)\<close> calls \<open>f\<close> at once and then at every tick until \<open>f\<close> is
  done or the ten seconds are over, when it returns \<^verbatim>\<open>ErrWaitTimeout\<close>.  How many ticks
  there are before the timeout depends on the clock; it is the parameter \<open>ticks\<close>.  The
  result is the store, the client and \<^verbatim>\<open>updtPvc\<close>, \<open>None\<close> for the timeout.
\<close>

fun PollImmediate ::
  "nat \<Rightarrow> 'c Interface \<Rightarrow> addr \<Rightarrow> addr option \<Rightarrow> addr option \<Rightarrow> store \<Rightarrow> 'c \<Rightarrow> addr
     \<Rightarrow> (store \<times> 'c \<times> addr option) option" where
  "PollImmediate 0 client pvc anno label s c pvcCopy =
     (case attempt client pvc anno label s c pvcCopy of
        None \<Rightarrow> None
      | Some (Done s' c' updtPvc) \<Rightarrow> Some (s', c', Some updtPvc)
      | Some (Retry s' c' pvcCopy') \<Rightarrow> Some (s', c', None))"
| "PollImmediate (Suc ticks) client pvc anno label s c pvcCopy =
     (case attempt client pvc anno label s c pvcCopy of
        None \<Rightarrow> None
      | Some (Done s' c' updtPvc) \<Rightarrow> Some (s', c', Some updtPvc)
      | Some (Retry s' c' pvcCopy') \<Rightarrow> PollImmediate ticks client pvc anno label s' c' pvcCopy')"

definition updatePVC ::
  "nat \<Rightarrow> 'c Interface \<Rightarrow> store \<Rightarrow> 'c \<Rightarrow> addr \<Rightarrow> addr option \<Rightarrow> addr option
     \<Rightarrow> (store \<times> 'c \<times> addr \<times> go_error option) option" where
  "updatePVC ticks client s c pvc anno label =
     (case claims s pvc of
        None \<Rightarrow> None
      | Some orig \<Rightarrow>
          (let nsName = Namespace orig @ ''/'' @ Name orig in
           case DeepCopy s pvc of
             None \<Rightarrow> None
           | Some (s0, pvcCopy) \<Rightarrow>
               (case PollImmediate ticks client pvc anno label s0 c pvcCopy of
                  None \<Rightarrow> None
                | Some (s', c', Some updtPvc) \<Rightarrow> Some (s', c', updtPvc, None)
                | Some (s', c', None) \<Rightarrow>
                    Some (s', c', pvc,
                          Some (Wrapf ErrWaitTimeout (''error updating pvc %q'' @ [CHR 0x0A])
                                  [nsName])))))"

subsection \<open>Pointers that are good to use\<close>

text \<open>A map pointer is valid in a store when it is \<^verbatim>\<open>nil\<close> or an address in use that
  holds a map; a claim pointer is valid when it is an address in use that holds a claim
  whose two map fields are valid.\<close>

fun valid_map :: "store \<Rightarrow> addr option \<Rightarrow> bool" where
  "valid_map s None = True"
| "valid_map s (Some a) = (a < fresh s \<and> maps s a \<noteq> None)"

definition valid_claim :: "store \<Rightarrow> addr \<Rightarrow> bool" where
  "valid_claim s p =
     (p < fresh s \<and>
      (case claims s p of
         None \<Rightarrow> False
       | Some obj \<Rightarrow> valid_map s (Annotations obj) \<and> valid_map s (Labels obj)))"

text \<open>The invariant of the retry loop, relative to the first address \<open>n\<close> that was unused
  when \<^verbatim>\<open>updatePVC\<close> was entered: the working copy and its maps live at or above \<open>n\<close>,
  and nothing below \<open>n\<close> has changed.\<close>

fun readable :: "store \<Rightarrow> addr option \<Rightarrow> bool" where
  "readable s None = True"
| "readable s (Some a) = (maps s a \<noteq> None)"

fun owned_map :: "addr \<Rightarrow> store \<Rightarrow> addr option \<Rightarrow> bool" where
  "owned_map n s None = True"
| "owned_map n s (Some a) = (n \<le> a \<and> a < fresh s \<and> maps s a \<noteq> None)"

definition owned_claim :: "addr \<Rightarrow> store \<Rightarrow> addr \<Rightarrow> bool" where
  "owned_claim n s q =
     (n \<le> q \<and> q < fresh s \<and>
      (case claims s q of
         None \<Rightarrow> False
       | Some obj \<Rightarrow> owned_map n s (Annotations obj) \<and> owned_map n s (Labels obj)))"

definition ext :: "addr \<Rightarrow> store \<Rightarrow> store \<Rightarrow> bool" where
  "ext n s s' =
     (fresh s \<le> fresh s' \<and>
      (\<forall>a. maps s a \<noteq> None \<longrightarrow> maps s' a \<noteq> None) \<and>
      (\<forall>a. a < n \<longrightarrow> maps s' a = maps s a) \<and>
      (\<forall>a. a < n \<longrightarrow> claims s' a = claims s a))"

text \<open>What one call of the condition function keeps.\<close>

fun attempt_inv :: "addr \<Rightarrow> store \<Rightarrow> 'c attempt \<Rightarrow> bool" where
  "attempt_inv n s (Done s' c' u) = ext n s s'"
| "attempt_inv n s (Retry s' c' q') = (ext n s s' \<and> owned_claim n s' q')"

section \<open>The importer (\<^verbatim>\<open>pkg/importer\<close>)\<close>

text \<open>
  Of the importer the source at hand holds the test file only: the test double of the
  conversion tool, the helper that swaps the tool in, the helper that builds a data
  stream, and the tables of the tests.  They are translated as they are written.  The
  functions under test are modelled from the specification, each marked so.
\<close>

subsection \<open>The conversion tool and the process-wide variable that holds it\<close>

text \<open>The interface \<^verbatim>\<open>image.QEMUOperations\<close>, with the three methods that
  \<^verbatim>\<open>fakeQEMUOperations\<close> implements; a URL is passed as its text.\<close>

record QEMUOperations =
  ConvertQcow2ToRaw :: "string \<Rightarrow> string \<Rightarrow> go_error option"
  ConvertQcow2ToRawStream :: "string \<Rightarrow> string \<Rightarrow> go_error option"
  Validate :: "string \<Rightarrow> string \<Rightarrow> go_error option"

text \<open>\<^verbatim>\<open>fakeQEMUOperations{e1, e2, e3}\<close>: every method returns its scripted error
  (\<^verbatim>\<open>errors.New(msg)\<close> is an error with a message and no arguments).\<close>

definition NewFakeQEMUOperations ::
  "go_error option \<Rightarrow> go_error option \<Rightarrow> go_error option \<Rightarrow> QEMUOperations" where
  "NewFakeQEMUOperations e1 e2 e3 =
     \<lparr> ConvertQcow2ToRaw = (\<lambda>src dst. e1),
       ConvertQcow2ToRawStream = (\<lambda>url dst. e2),
       Validate = (\<lambda>path fmt. e3) \<rparr>"

definition NewQEMUAllErrors :: QEMUOperations where
  "NewQEMUAllErrors =
     (let err = Errorf
        ''qemu should not be called from this test override with replaceQEMUOperations'' []
      in NewFakeQEMUOperations (Some err) (Some err) (Some err))"

text \<open>
  The state of the importer process: the package variable \<^verbatim>\<open>qemuOperations\<close>, the files
  the importer has written, and the calls made to the conversion tool so far, oldest
  first.
\<close>

datatype tool_call =
    CallConvert string string
  | CallConvertStream string string
  | CallValidate string string

record process =
  qemuOperations :: QEMUOperations
  files :: "string \<rightharpoonup> string"
  calls :: "tool_call list"

text \<open>
  \<^verbatim>\<open>replaceQEMUOperations(replacement, f)\<close>.  The callback \<open>f\<close> is a Go closure without
  arguments or results: it acts on the process and leaves what it computes in variables it
  has captured, here its result \<open>'a\<close>.  The deferred assignment runs when \<open>f\<close> has
  returned.
\<close>

definition replaceQEMUOperations ::
  "QEMUOperations option \<Rightarrow> (process \<Rightarrow> process \<times> 'a) \<Rightarrow> process \<Rightarrow> process \<times> 'a" where
  "replaceQEMUOperations replacement f p =
     (let orig = qemuOperations p in
      case replacement of
        Some r \<Rightarrow>
          (let (p', x) = f (p\<lparr>qemuOperations := r\<rparr>) in (p'\<lparr>qemuOperations := orig\<rparr>, x))
      | None \<Rightarrow> f p)"

subsection \<open>The Copier\<close>

text \<open>The failure kinds of the specification.  A conversion or validation failure
  carries what the tool reported.\<close>

datatype pipeline_error =
    UnsupportedScheme
  | EndpointUnreachable
  | AuthFailure
  | FormatError
  | IOError
  | ConvertError go_error
  | ValidateError go_error

text \<open>A byte source read to its end: it delivers its bytes, or it delivers some bytes and
  then fails (a short read).\<close>

datatype byte_source = Bytes string | ShortRead string

definition hexdigit :: "nat \<Rightarrow> char" where
  "hexdigit n = (if n < 10 then char_of (48 + n) else char_of (87 + n))"

definition EncodeToString :: "string \<Rightarrow> string" where
  "EncodeToString bs =
     concat (map (\<lambda>c. [hexdigit (of_char c div 16), hexdigit (of_char c mod 16)]) bs)"

text \<open>
  Modelled from the spec: \<^verbatim>\<open>randTmpName\<close> is not in the source at hand.  Section 4.4: the
  temporary name is the intended name with a random suffix appended.  \<^verbatim>\<open>Test_randTmpName\<close>
  expects the suffix to be as long as the hexadecimal text of eight bytes; the eight random
  bytes are the argument \<open>rnd\<close>.
\<close>

definition randTmpName :: "string \<Rightarrow> string \<Rightarrow> string" where
  "randTmpName src rnd = src @ EncodeToString rnd"

text \<open>
  Modelled from the spec: \<^verbatim>\<open>copy\<close> is not in the source at hand.  Its arguments
  \<open>(r, out, qemu)\<close> and the absence of a tool among them are those of the calls in
  \<^verbatim>\<open>Test_copy\<close>, which installs the tool with \<^verbatim>\<open>replaceQEMUOperations\<close> around the call;
  the tool used is therefore the one the package variable holds.  Its steps are those of
  section 4.4.  Direct path (\<open>qemu\<close> false): the bytes are written under a temporary name,
  which becomes the final name only when the copy is complete; a short read is an
  \<open>IOError\<close> and nothing appears under the final name.  Convert path (\<open>qemu\<close> true): the
  bytes are written to a temporary file, \<open>Convert\<close> transcodes it to the destination,
  \<open>Validate\<close> is then called on the destination, the temporary file is removed in all
  cases, and the failures are \<open>ConvertError\<close> and \<open>ValidateError\<close>.  \<open>expected\<close> is the
  target format handed to \<open>Validate\<close>, \<open>rnd\<close> the random bytes of the temporary name.
\<close>

definition copy ::
  "string \<Rightarrow> string \<Rightarrow> byte_source \<Rightarrow> string \<Rightarrow> bool \<Rightarrow> process
     \<Rightarrow> process \<times> pipeline_error option" where
  "copy expected rnd r out qemu p =
     (let tmp = randTmpName out rnd in
      case r of
        ShortRead b \<Rightarrow> (p\<lparr>files := (files p)(tmp := None)\<rparr>, Some IOError)
      | Bytes b \<Rightarrow>
          if \<not> qemu
          then (p\<lparr>files := ((files p)(tmp := None))(out \<mapsto> b)\<rparr>, None)
          else
            (let p1 = p\<lparr>files := (files p)(tmp \<mapsto> b)\<rparr>;
                 e1 = ConvertQcow2ToRaw (qemuOperations p1) tmp out;
                 p2 = p1\<lparr>calls := calls p1 @ [CallConvert tmp out]\<rparr>
             in case e1 of
                  Some e \<Rightarrow> (p2\<lparr>files := (files p2)(tmp := None)\<rparr>, Some (ConvertError e))
                | None \<Rightarrow>
                    (let e3 = Validate (qemuOperations p2) out expected;
                         p3 = p2\<lparr>calls := calls p2 @ [CallValidate out expected]\<rparr>;
                         p4 = p3\<lparr>files := (files p3)(tmp := None)\<rparr>
                     in case e3 of
                          Some e \<Rightarrow> (p4, Some (ValidateError e))
                        | None \<Rightarrow> (p4, None))))"

text \<open>
  Modelled from the spec: the streaming-convert variant of section 4.4, which is not in the
  source at hand (\<^verbatim>\<open>TestCopyImage\<close> reaches it through \<^verbatim>\<open>CopyImage\<close> with an
  \<^verbatim>\<open>http\<close> endpoint).  Nothing is buffered locally: \<open>ConvertStream\<close> is called with the
  source URL, and \<open>Validate\<close> on the destination after it.
\<close>

definition copy_stream ::
  "string \<Rightarrow> string \<Rightarrow> string \<Rightarrow> process \<Rightarrow> process \<times> pipeline_error option" where
  "copy_stream expected url out p =
     (let e2 = ConvertQcow2ToRawStream (qemuOperations p) url out;
          p1 = p\<lparr>calls := calls p @ [CallConvertStream url out]\<rparr>
      in case e2 of
           Some e \<Rightarrow> (p1, Some (ConvertError e))
         | None \<Rightarrow>
             (let e3 = Validate (qemuOperations p1) out expected;
                  p2 = p1\<lparr>calls := calls p1 @ [CallValidate out expected]\<rparr>
              in case e3 of
                   Some e \<Rightarrow> (p2, Some (ValidateError e))
                 | None \<Rightarrow> (p2, None)))"

text \<open>
  The rows of \<^verbatim>\<open>Test_copy\<close>: the reader, the output name, the \<open>qemu\<close> flag, the tool to
  install, and whether an error is wanted.  What the two readers hold does not matter to
  the outcome; they are a text and the first bytes of an image.
\<close>

definition Test_copy_rows ::
  "(byte_source \<times> string \<times> bool \<times> QEMUOperations \<times> bool) list" where
  "Test_copy_rows =
     [(Bytes ''test data for reader 1'', ''testoutfile'', False,
         NewFakeQEMUOperations None (Some (Errorf ''Shouldn't get this'' [])) None, False),
      (Bytes ''QFI'', ''testqcow2file'', True,
         NewFakeQEMUOperations None (Some (Errorf ''Shouldn't get this'' [])) None, False),
      (Bytes ''QFI'', ''testinvalidfile'', True,
         NewFakeQEMUOperations None None (Some (Errorf ''invalid format'' [])), True),
      (Bytes ''QFI'', ''testinvalidfile'', True,
         NewFakeQEMUOperations (Some (Errorf ''exit 1'' [])) None None, True)]"

text \<open>The body of the loop of \<^verbatim>\<open>Test_copy\<close> for one row: true when the row passes.\<close>

definition Test_copy_row ::
  "string \<Rightarrow> string \<Rightarrow> process \<Rightarrow> byte_source \<times> string \<times> bool \<times> QEMUOperations \<times> bool \<Rightarrow> bool" where
  "Test_copy_row expected rnd p row =
     (case row of (r, out, qemu, ops, wantErr) \<Rightarrow>
        (snd (replaceQEMUOperations (Some ops) (copy expected rnd r out qemu) p) \<noteq> None) = wantErr)"

subsection \<open>The data stream and its chain of readers\<close>

text \<open>
  The magic signatures, the size of the header buffer (\<^verbatim>\<open>image.MaxExpectedHdrSize\<close>), the
  nesting bound and the name of the object-store scheme are declared outside the source at
  hand and not given by the specification; they are parameters.  A signature is a byte
  sequence at a fixed offset of the header.
\<close>

record signature =
  SigOffset :: nat
  SigMagic :: string

record importer_params =
  GzipSignature :: signature
  XzSignature :: signature
  TarSignature :: signature
  Qcow2Signature :: signature
  MaxExpectedHdrSize :: nat
  MaxNesting :: nat
  ObjectStoreScheme :: string

text \<open>The decoders are not the importer's own (section 1): a decoder is a parameter that,
  given a stage and the bytes of the stream it wraps, yields the decoded bytes, or nothing
  when it cannot be constructed (a corrupt header, a truncated stream, an archive with
  more than one entry).\<close>

datatype format = Gzip | Xz | Tar | Qcow2 | Raw

type_synonym decoder = "format \<Rightarrow> string \<Rightarrow> string option"

text \<open>The world outside: local files by path, and what a network endpoint answers to a
  request with given credentials.\<close>

datatype fetch = Unreachable | Rejected | Body string

record sources =
  LocalFiles :: "string \<rightharpoonup> string"
  Remote :: "string \<Rightarrow> string \<Rightarrow> string \<Rightarrow> fetch"

text \<open>Section 3: an endpoint is a scheme, a host and path (or bucket and key), and an
  optional query.\<close>

datatype scheme = SchemeFile | SchemeHttp | SchemeHttps | SchemeObjectStore

record Endpoint =
  EpScheme :: scheme
  EpLocation :: string
  EpQuery :: "string option"

definition scheme_of :: "importer_params \<Rightarrow> string \<Rightarrow> scheme option" where
  "scheme_of P s =
     (if s = ''file'' then Some SchemeFile
      else if s = ''http'' then Some SchemeHttp
      else if s = ''https'' then Some SchemeHttps
      else if s = ObjectStoreScheme P then Some SchemeObjectStore
      else None)"

text \<open>
  Modelled from the spec: \<^verbatim>\<open>ParseEndpoint\<close> is not in the source at hand.  Section 4.1: the
  endpoint string is parsed into a structured endpoint, and a scheme that is not one of the
  four fails with \<open>UnsupportedScheme\<close>.  As in a URI the scheme is the text before the
  first colon; two slashes after the colon introduce the host and are not part of the
  location; the query is the text after the first \<^verbatim>\<open>?\<close>.  The tests write a local file
  both as \<^verbatim>\<open>file:///dir/name\<close> (\<^verbatim>\<open>getURLPath\<close>) and as \<^verbatim>\<open>file:/dir/name\<close> (what
  \<^verbatim>\<open>filepath.Join("file://", dir, name)\<close> returns); both have the scheme \<^verbatim>\<open>file\<close> and the
  location \<^verbatim>\<open>/dir/name\<close>.
\<close>

definition ParseEndpoint :: "importer_params \<Rightarrow> string \<Rightarrow> pipeline_error + Endpoint" where
  "ParseEndpoint P ep =
     (case Index ep '':'' of
        None \<Rightarrow> Inl UnsupportedScheme
      | Some m \<Rightarrow>
          (case scheme_of P (take m ep) of
             None \<Rightarrow> Inl UnsupportedScheme
           | Some sc \<Rightarrow>
               (let after = drop (Suc m) ep;
                    rest = (if prefix ''//'' after then drop 2 after else after)
                in case Index rest ''?'' of
                     None \<Rightarrow> Inr \<lparr> EpScheme = sc, EpLocation = rest, EpQuery = None \<rparr>
                   | Some q \<Rightarrow>
                       Inr \<lparr> EpScheme = sc, EpLocation = take q rest,
                             EpQuery = Some (drop (Suc q) rest) \<rparr>)))"

text \<open>
  Modelled from the spec: \<^verbatim>\<open>dataStreamSelector\<close> is not in the source at hand.  Section
  4.1: a local file is opened by its path, a network endpoint is requested with the
  credentials; a missing file and a failed request are \<open>EndpointUnreachable\<close>, and
  credentials that are present and rejected are \<open>AuthFailure\<close>.  The result is the raw
  byte source.
\<close>

definition dataStreamSelector ::
  "sources \<Rightarrow> Endpoint \<Rightarrow> string \<Rightarrow> string \<Rightarrow> pipeline_error + string" where
  "dataStreamSelector w u accessKey secKey =
     (case EpScheme u of
        SchemeFile \<Rightarrow>
          (case LocalFiles w (EpLocation u) of
             None \<Rightarrow> Inl EndpointUnreachable
           | Some content \<Rightarrow> Inr content)
      | _ \<Rightarrow>
          (case Remote w (EpLocation u) accessKey secKey of
             Unreachable \<Rightarrow> Inl EndpointUnreachable
           | Rejected \<Rightarrow>
               if accessKey = [] \<and> secKey = [] then Inl EndpointUnreachable else Inl AuthFailure
           | Body content \<Rightarrow> Inr content))"

text \<open>
  Modelled from the spec: the sniffer is not in the source at hand.  Section 4.2: the
  header buffer is matched against the signatures in the fixed order gzip, xz, tar,
  disk-container format; the first that matches wins, and no match is raw content.
\<close>

definition matches :: "signature \<Rightarrow> string \<Rightarrow> bool" where
  "matches sg hdr =
     (SigMagic sg \<noteq> [] \<and> take (length (SigMagic sg)) (drop (SigOffset sg) hdr) = SigMagic sg)"

definition sniff :: "importer_params \<Rightarrow> string \<Rightarrow> format" where
  "sniff P hdr =
     (if matches (GzipSignature P) hdr then Gzip
      else if matches (XzSignature P) hdr then Xz
      else if matches (TarSignature P) hdr then Tar
      else if matches (Qcow2Signature P) hdr then Qcow2
      else Raw)"

text \<open>
  A chain link (section 3): its stage kind and its handle.  The handle is what the link
  will still deliver: for a replay buffer the bytes captured by the sniffer, to be served
  first, and after them the bytes of the live source; for the other kinds only the
  latter.  \<^verbatim>\<open>Test_closeReaders\<close> builds links as \<^verbatim>\<open>reader{kind, handle}\<close>.
\<close>

datatype stage = Base | Replay | GzipDecode | XzDecode | TarExtract

record reader =
  rdrType :: stage
  captured :: string
  live :: string

definition stage_of :: "format \<Rightarrow> stage" where
  "stage_of f = (case f of Gzip \<Rightarrow> GzipDecode | Xz \<Rightarrow> XzDecode | _ \<Rightarrow> TarExtract)"

text \<open>
  Modelled from the spec: the chain builder is not in the source at hand.  Sections 4.2 and
  4.3: the header of the current stream is read into the buffer and exposed again through
  a replay link; if the sniffer selects a decode stage, the stream is wrapped with the
  stage's decoder (one more link) and the decoder's output is sniffed in turn, behind a
  fresh replay link; a decoder that cannot be constructed and a nesting deeper than the
  bound are \<open>FormatError\<close>.  The first argument counts the decode stages still allowed.
  The result is the chain, the header last read, and whether the content is the
  disk-container format.
\<close>

fun build ::
  "nat \<Rightarrow> importer_params \<Rightarrow> decoder \<Rightarrow> reader list \<Rightarrow> string
     \<Rightarrow> pipeline_error + (reader list \<times> string \<times> bool)" where
  "build 0 P dec chain cur =
     (let hdr = take (MaxExpectedHdrSize P) cur;
          chain' = chain @ [\<lparr> rdrType = Replay, captured = hdr,
                               live = drop (MaxExpectedHdrSize P) cur \<rparr>]
      in case sniff P hdr of
           Raw \<Rightarrow> Inr (chain', hdr, False)
         | Qcow2 \<Rightarrow> Inr (chain', hdr, True)
         | _ \<Rightarrow> Inl FormatError)"
| "build (Suc d) P dec chain cur =
     (let hdr = take (MaxExpectedHdrSize P) cur;
          chain' = chain @ [\<lparr> rdrType = Replay, captured = hdr,
                               live = drop (MaxExpectedHdrSize P) cur \<rparr>]
      in case sniff P hdr of
           Raw \<Rightarrow> Inr (chain', hdr, False)
         | Qcow2 \<Rightarrow> Inr (chain', hdr, True)
         | f \<Rightarrow>
             (case dec f cur of
                None \<Rightarrow> Inl FormatError
              | Some out \<Rightarrow>
                  build d P dec
                    (chain' @ [\<lparr> rdrType = stage_of f, captured = [], live = out \<rparr>]) out))"

text \<open>The data stream: the fields that \<^verbatim>\<open>createDataStream\<close> sets, the chain
  \<^verbatim>\<open>Readers\<close> that the tests read, and the flag for content that needs conversion.\<close>

record DataStream =
  url :: "Endpoint option"
  buf :: string
  accessKeyID :: string
  secretKey :: string
  Readers :: "reader list"
  qemu :: bool

text \<open>
  Modelled from the spec: \<^verbatim>\<open>constructReaders\<close> is not in the source at hand.  It opens the
  base source of the endpoint (section 4.1) and builds the chain on it (sections 4.2 and
  4.3); when a step fails, every link built so far is closed and no chain is left.
\<close>

definition constructReaders ::
  "importer_params \<Rightarrow> decoder \<Rightarrow> sources \<Rightarrow> DataStream \<Rightarrow> DataStream \<times> pipeline_error option" where
  "constructReaders P dec w ds =
     (case url ds of
        None \<Rightarrow> (ds, Some UnsupportedScheme)
      | Some u \<Rightarrow>
          (case dataStreamSelector w u (accessKeyID ds) (secretKey ds) of
             Inl e \<Rightarrow> (ds, Some e)
           | Inr raw \<Rightarrow>
               (case build (MaxNesting P) P dec
                       [\<lparr> rdrType = Base, captured = [], live = raw \<rparr>] raw of
                  Inl e \<Rightarrow> (ds\<lparr>Readers := []\<rparr>, Some e)
                | Inr (chain, hdr, q) \<Rightarrow>
                    (ds\<lparr>Readers := chain, buf := hdr, qemu := q\<rparr>, None))))"

text \<open>\<^verbatim>\<open>createDataStream\<close>, the helper of the test file.  It drops the error of
  \<^verbatim>\<open>ParseEndpoint\<close> and the result of \<^verbatim>\<open>constructReaders\<close>; \<^verbatim>\<open>make\<close> fills the buffer
  with zero bytes.\<close>

definition createDataStream ::
  "importer_params \<Rightarrow> decoder \<Rightarrow> sources \<Rightarrow> string \<Rightarrow> string \<Rightarrow> string \<Rightarrow> DataStream" where
  "createDataStream P dec w ep accKey secKey =
     (let dsurl = (case ParseEndpoint P ep of Inl e \<Rightarrow> None | Inr u \<Rightarrow> Some u);
          ds = \<lparr> url = dsurl,
                 buf = replicate (MaxExpectedHdrSize P) (CHR 0x00),
                 accessKeyID = accKey,
                 secretKey = secKey,
                 Readers = [],
                 qemu = False \<rparr>
      in fst (constructReaders P dec w ds))"

section \<open>Example inputs\<close>

text \<open>Values for the names that the functions take as a parameter, a cluster client that
  answers from a script (its state counts the calls made so far), and a claim.\<close>

definition example_names :: pkg_names where
  "example_names =
     \<lparr> AnnSecret = ''cdi.kubevirt.io/storage.import.secretName'',
       AnnCloningCreatedBy = ''cdi.kubevirt.io/storage.cloningCreatedByController'',
       AnnTargetPodNamespace = ''cdi.kubevirt.io/storage.clone.targetPod.namespace'',
       CloneUniqueID = ''cdi.kubevirt.io/storage.clone.cloneUniqeId'',
       CDILabelKey = ''app'',
       CDILabelValue = ''containerized-data-importer'',
       CloningLabelKey = ''cloning'',
       CloningLabelValue = ''host-assisted-cloning'',
       ClonerSourcePodName = ''clone-source-pod'',
       ClonerImagePath = ''/tmp/clone/image'',
       ClonerSocketPath = ''/tmp/clone/socket'' \<rparr>"

definition scripted_client :: "go_error option \<Rightarrow> (nat \<Rightarrow> go_error option) \<Rightarrow> nat Interface" where
  "scripted_client secretErr updateErr =
     \<lparr> SecretsGet = (\<lambda>c ns name. (Suc c, secretErr)),
       PodsCreate = (\<lambda>c ns pod. (Suc c, Inr (pod\<lparr>Namespace := ns\<rparr>))),
       ClaimsUpdate = (\<lambda>c ns v. (Suc c, case updateErr c of None \<Rightarrow> Inr v | Some e \<Rightarrow> Inl e)),
       ClaimsGet = (\<lambda>c ns name. (Suc c, Inl (StatusError StatusReasonNotFound))) \<rparr>"

definition example_claim :: "'m \<Rightarrow> 'm \<Rightarrow> 'm PersistentVolumeClaim" where
  "example_claim a l =
     \<lparr> Name = ''golden-pvc'', GenerateName = [], Namespace = ''default'',
       UID = ''0c1f'', DeletionTimestamp = None, Annotations = a, Labels = l,
       OwnerReferences = [], ClaimSpecStatus = [] \<rparr>"

definition example_store :: store where
  "example_store =
     \<lparr> claims = [0 \<mapsto> example_claim (Some 1) None],
       maps = [1 \<mapsto> [''cdi.kubevirt.io/storage.import.endpoint'' \<mapsto> ''http://host/disk.img''],
               2 \<mapsto> [''cdi.kubevirt.io/storage.import.pod.phase'' \<mapsto> ''Running'']],
       fresh = 3 \<rparr>"

text \<open>A process that has made no tool call and written no file, parameters of the
  importer, and a world with one local disk image.\<close>

definition example_process :: "QEMUOperations \<Rightarrow> process" where
  "example_process ops = \<lparr> qemuOperations = ops, files = Map.empty, calls = [] \<rparr>"

definition example_params :: importer_params where
  "example_params =
     \<lparr> GzipSignature = \<lparr> SigOffset = 0, SigMagic = [CHR 0x1F, CHR 0x8B] \<rparr>,
       XzSignature = \<lparr> SigOffset = 0, SigMagic = [CHR 0xFD, CHR 0x37, CHR 0x7A, CHR 0x58, CHR 0x5A, CHR 0x00] \<rparr>,
       TarSignature = \<lparr> SigOffset = 257, SigMagic = ''ustar'' \<rparr>,
       Qcow2Signature = \<lparr> SigOffset = 0, SigMagic = ''QFI'' @ [CHR 0xFB] \<rparr>,
       MaxExpectedHdrSize = 512,
       MaxNesting = 4,
       ObjectStoreScheme = ''s3'' \<rparr>"

definition example_sources :: sources where
  "example_sources =
     \<lparr> LocalFiles = [''/images/cirros.img'' \<mapsto> ''QFI'' @ [CHR 0xFB] @ ''disk''],
       Remote = (\<lambda>location accessKey secKey. Unreachable) \<rparr>"

section \<open>Properties of the controller's helpers\<close>

subsection \<open>\<^verbatim>\<open>getSecretName\<close>\<close>

text \<open>
  Claim C8.  \<^verbatim>\<open>getSecretName\<close> returns the empty name and no error, without calling the
  cluster, when the claim has no secret annotation or an empty one.  When the annotation
  names a secret and the lookup reports that the secret is not found, it returns the
  annotated name and no error.  Whenever it returns an error, the annotation names a
  secret and the lookup of that secret failed with an error that is not a not-found error.
\<close>

theorem getSecretName_results:
  "(lookup (Annotations pvc) (AnnSecret K) = None \<or>
    lookup (Annotations pvc) (AnnSecret K) = Some [] \<longrightarrow>
      getSecretName K client c pvc = (c, [], None))
   \<and> (lookup (Annotations pvc) (AnnSecret K) = Some name \<and> name \<noteq> [] \<and>
      IsNotFound (snd (SecretsGet client c (Namespace pvc) name)) \<longrightarrow>
        snd (getSecretName K client c pvc) = (name, None))
   \<and> (snd (snd (getSecretName K client c pvc)) \<noteq> None \<longrightarrow>
        (\<exists>secret e. lookup (Annotations pvc) (AnnSecret K) = Some secret \<and> secret \<noteq> [] \<and>
           snd (SecretsGet client c (Namespace pvc) secret) = Some e \<and>
           \<not> IsNotFound (Some e)))"
  by (auto simp: getSecretName_def Let_def split: option.splits prod.splits if_splits)

theorem getSecretName_results_witness:
  "getSecretName example_names (scripted_client None (\<lambda>k. None)) 0 (example_claim None None)
     = (0, [], None)
   \<and> snd (getSecretName example_names
            (scripted_client (Some (StatusError StatusReasonNotFound)) (\<lambda>k. None)) 0
            (example_claim (Some [AnnSecret example_names \<mapsto> ''creds'']) None))
     = (''creds'', None)
   \<and> snd (snd (getSecretName example_names
            (scripted_client (Some (StatusError (StatusReasonOther ''Forbidden''))) (\<lambda>k. None)) 0
            (example_claim (Some [AnnSecret example_names \<mapsto> ''creds'']) None))) \<noteq> None
   \<and> (\<exists>e. snd (SecretsGet
            (scripted_client (Some (StatusError (StatusReasonOther ''Forbidden''))) (\<lambda>k. None))
            0 ''default'' ''creds'') = Some e \<and> \<not> IsNotFound (Some e))"
proof -
  let ?anon = "example_claim None None :: smap option PersistentVolumeClaim"
  let ?pvc = "example_claim (Some [AnnSecret example_names \<mapsto> ''creds'']) None"
  let ?missing = "scripted_client (Some (StatusError StatusReasonNotFound)) (\<lambda>k. None)"
  let ?broken = "scripted_client (Some (StatusError (StatusReasonOther ''Forbidden''))) (\<lambda>k. None)"
  have absent: "lookup (Annotations ?anon) (AnnSecret example_names) = None"
    by (simp add: example_claim_def)
  have present: "lookup (Annotations ?pvc) (AnnSecret example_names) = Some ''creds''"
    by (simp add: example_claim_def)
  have nf: "IsNotFound (snd (SecretsGet ?missing 0 (Namespace ?pvc) ''creds''))"
    by (simp add: scripted_client_def)
  have failed: "snd (snd (getSecretName example_names ?broken 0 ?pvc)) \<noteq> None"
    by (simp add: getSecretName_def present scripted_client_def)
  have ns: "Namespace ?pvc = ''default''" by (simp add: example_claim_def)
  from getSecretName_results [where pvc = ?anon and K = example_names and c = 0
      and client = "scripted_client None (\<lambda>k. None)"] absent
  have 1: "getSecretName example_names (scripted_client None (\<lambda>k. None)) 0 ?anon = (0, [], None)"
    by simp
  from getSecretName_results [where pvc = ?pvc and K = example_names and c = 0
      and client = ?missing and name = "''creds''"] present nf
  have 2: "snd (getSecretName example_names ?missing 0 ?pvc) = (''creds'', None)"
    by simp
  from getSecretName_results [where pvc = ?pvc and K = example_names and c = 0
      and client = ?broken] failed present ns
  have 3: "\<exists>e. snd (SecretsGet ?broken 0 ''default'' ''creds'') = Some e \<and> \<not> IsNotFound (Some e)"
    by auto
  from 1 2 failed 3 show ?thesis by blast
qed

subsection \<open>\<^verbatim>\<open>updatePVC\<close>: what the store keeps\<close>

text \<open>Every step of \<^verbatim>\<open>updatePVC\<close> extends the store: it allocates, and it writes only at
  addresses that were unused when it started.\<close>

lemma ext_refl: "ext n s s"
  by (simp add: ext_def)

lemma ext_trans: "ext n s s1 \<Longrightarrow> ext n s1 s2 \<Longrightarrow> ext n s s2"
  by (auto simp: ext_def)

lemma readable_ext: "ext n s s' \<Longrightarrow> readable s m \<Longrightarrow> readable s' m"
  by (cases m) (auto simp: ext_def)

lemma owned_map_ext: "ext n s s' \<Longrightarrow> owned_map n s m \<Longrightarrow> owned_map n s' m"
  by (cases m) (auto simp: ext_def)

lemma owned_map_readable: "owned_map n s m \<Longrightarrow> readable s m"
  by (cases m) auto

lemma alloc_map_ok:
  assumes "n \<le> fresh s" "alloc_map s m = (s', a)"
  shows "ext n s s' \<and> claims s' = claims s \<and> owned_map n s' (Some a)"
  using assms by (auto simp: alloc_map_def ext_def)

lemma copy_map_ok:
  assumes "n \<le> fresh s" "readable s m"
  shows "\<exists>s' m'. copy_map s m = Some (s', m') \<and> ext n s s' \<and> claims s' = claims s
           \<and> owned_map n s' m'"
proof (cases m)
  case None
  then show ?thesis by (simp add: ext_refl)
next
  case (Some a)
  with assms(2) obtain x where x: "maps s a = Some x" by auto
  obtain s' a' where al: "alloc_map s x = (s', a')" by (cases "alloc_map s x")
  from alloc_map_ok [OF assms(1) al] Some x al show ?thesis by simp
qed

lemma alloc_claim_ok:
  assumes "n \<le> fresh s" "alloc_claim s obj = (s', q)"
    "owned_map n s (Annotations obj)" "owned_map n s (Labels obj)"
  shows "ext n s s' \<and> owned_claim n s' q \<and> (\<forall>b. b \<noteq> q \<longrightarrow> claims s' b = claims s b)"
proof -
  from assms(2) have s': "s' = s\<lparr>claims := (claims s)(fresh s \<mapsto> obj), fresh := Suc (fresh s)\<rparr>"
    and q: "q = fresh s" by (auto simp: alloc_claim_def)
  have e: "ext n s s'" using assms(1) by (auto simp: s' ext_def)
  have "owned_map n s' (Annotations obj)" "owned_map n s' (Labels obj)"
    using owned_map_ext [OF e] assms(3,4) by auto
  then have "owned_claim n s' q" using assms(1) by (simp add: owned_claim_def s' q)
  with e show ?thesis by (simp add: s' q)
qed

lemma with_maps_sel [simp]:
  "Annotations (with_maps obj a l) = a" "Labels (with_maps obj a l) = l"
  "Namespace (with_maps obj a l) = Namespace obj" "Name (with_maps obj a l) = Name obj"
  by (simp_all add: with_maps_def)

lemma DeepCopy_ok:
  assumes n: "n \<le> fresh s" and p: "claims s p = Some obj"
    and ra: "readable s (Annotations obj)" and rl: "readable s (Labels obj)"
  shows "\<exists>s' q. DeepCopy s p = Some (s', q) \<and> ext n s s' \<and> owned_claim n s' q
           \<and> (\<forall>b. b \<noteq> q \<longrightarrow> claims s' b = claims s b)"
proof -
  from copy_map_ok [OF n ra] obtain s1 a where
    c1: "copy_map s (Annotations obj) = Some (s1, a)" and e1: "ext n s s1"
    and k1: "claims s1 = claims s" and o1: "owned_map n s1 a" by blast
  have n1: "n \<le> fresh s1" using n e1 by (simp add: ext_def)
  from copy_map_ok [OF n1 readable_ext [OF e1 rl]] obtain s2 l where
    c2: "copy_map s1 (Labels obj) = Some (s2, l)" and e2: "ext n s1 s2"
    and k2: "claims s2 = claims s1" and o2: "owned_map n s2 l" by blast
  have n2: "n \<le> fresh s2" using n1 e2 by (simp add: ext_def)
  obtain s' q where al: "alloc_claim s2 (with_maps obj a l) = (s', q)"
    by (cases "alloc_claim s2 (with_maps obj a l)")
  have "owned_map n s2 a" using owned_map_ext [OF e2 o1] .
  with alloc_claim_ok [OF n2 al] o2
  have r: "ext n s2 s'" "owned_claim n s' q" "\<forall>b. b \<noteq> q \<longrightarrow> claims s' b = claims s2 b"
    by simp_all
  have "DeepCopy s p = Some (s', q)" by (simp add: DeepCopy_def p c1 c2 al)
  moreover have "ext n s s'" using ext_trans [OF ext_trans [OF e1 e2] r(1)] .
  ultimately show ?thesis using r(2,3) k1 k2 by simp
qed

lemma addToMap_ok:
  assumes n: "n \<le> fresh s" and o: "owned_map n s m1" and r: "readable s m2"
  shows "\<exists>s' a. addToMap s m1 m2 = Some (s', Some a) \<and> ext n s s' \<and> claims s' = claims s
           \<and> owned_map n s' (Some a)"
proof -
  obtain s1 a1 where b: "(case m1 of None \<Rightarrow> alloc_map s Map.empty | Some a \<Rightarrow> (s, a)) = (s1, a1)"
    by (cases "case m1 of None \<Rightarrow> alloc_map s Map.empty | Some a \<Rightarrow> (s, a)")
  have s1: "ext n s s1 \<and> claims s1 = claims s \<and> owned_map n s1 (Some a1)"
  proof (cases m1)
    case None
    with b have "alloc_map s Map.empty = (s1, a1)" by simp
    from alloc_map_ok [OF n this] show ?thesis .
  next
    case (Some a)
    with b o show ?thesis by (auto simp: ext_refl)
  qed
  then obtain x where x: "maps s1 a1 = Some x" by auto
  show ?thesis
  proof (cases m2)
    case None
    with b s1 show ?thesis by (simp add: addToMap_def)
  next
    case (Some a2)
    from readable_ext [of n s s1 m2] s1 r Some obtain y where y: "maps s1 a2 = Some y" by auto
    let ?s' = "s1\<lparr>maps := (maps s1)(a1 \<mapsto> x ++ y)\<rparr>"
    have "addToMap s m1 m2 = Some (?s', Some a1)" using b Some x y by (simp add: addToMap_def)
    moreover have "ext n s1 ?s'" using s1 by (auto simp: ext_def)
    then have "ext n s ?s'" using s1 ext_trans by blast
    moreover have "claims ?s' = claims s" using s1 by simp
    moreover have "owned_map n ?s' (Some a1)" using s1 by simp
    ultimately show ?thesis by blast
  qed
qed


lemma set_field_ok:
  assumes o: "owned_claim n s q" and e: "ext n s0 s" and m: "owned_map n s m"
  shows "\<exists>s'. set_Annotations s q m = Some s' \<and> ext n s s' \<and> owned_claim n s' q
           \<and> (\<forall>b. b \<noteq> q \<longrightarrow> claims s' b = claims s b)"
    and "\<exists>s'. set_Labels s q m = Some s' \<and> ext n s s' \<and> owned_claim n s' q
           \<and> (\<forall>b. b \<noteq> q \<longrightarrow> claims s' b = claims s b)"
proof -
  from o obtain obj where obj: "claims s q = Some obj" "n \<le> q" "q < fresh s"
    "owned_map n s (Annotations obj)" "owned_map n s (Labels obj)"
    by (auto simp: owned_claim_def split: option.splits)
  let ?A = "s\<lparr>claims := (claims s)(q \<mapsto> obj\<lparr>Annotations := m\<rparr>)\<rparr>"
  let ?L = "s\<lparr>claims := (claims s)(q \<mapsto> obj\<lparr>Labels := m\<rparr>)\<rparr>"
  have eA: "ext n s ?A" and eL: "ext n s ?L" using obj(2) by (auto simp: ext_def)
  have "owned_claim n ?A q"
    using obj m owned_map_ext [OF eA] by (simp add: owned_claim_def)
  then show "\<exists>s'. set_Annotations s q m = Some s' \<and> ext n s s' \<and> owned_claim n s' q
           \<and> (\<forall>b. b \<noteq> q \<longrightarrow> claims s' b = claims s b)"
    using eA obj(1) by (simp add: set_Annotations_def)
  have "owned_claim n ?L q"
    using obj m owned_map_ext [OF eL] by (simp add: owned_claim_def)
  then show "\<exists>s'. set_Labels s q m = Some s' \<and> ext n s s' \<and> owned_claim n s' q
           \<and> (\<forall>b. b \<noteq> q \<longrightarrow> claims s' b = claims s b)"
    using eL obj(1) by (simp add: set_Labels_def)
qed

lemma owned_claim_same:
  assumes "owned_claim n s q" "ext n s s'" "claims s' = claims s"
  shows "owned_claim n s' q"
  using assms owned_map_ext [OF assms(2)]
  by (auto simp: owned_claim_def ext_def split: option.splits)

lemma add_field_ok:
  assumes n: "n \<le> fresh s" and o: "owned_claim n s q" and r: "readable s a"
  shows "\<exists>s'. add_Annotations s q a = Some s' \<and> ext n s s' \<and> owned_claim n s' q
              \<and> (\<forall>b. b \<noteq> q \<longrightarrow> claims s' b = claims s b)"
    and "\<exists>s'. add_Labels s q a = Some s' \<and> ext n s s' \<and> owned_claim n s' q
              \<and> (\<forall>b. b \<noteq> q \<longrightarrow> claims s' b = claims s b)"
proof -
  from o obtain obj where obj: "claims s q = Some obj"
    "owned_map n s (Annotations obj)" "owned_map n s (Labels obj)"
    by (auto simp: owned_claim_def split: option.splits)
  from addToMap_ok [OF n obj(2) r] obtain s1 a1 where
    ad: "addToMap s (Annotations obj) a = Some (s1, Some a1)" and e1: "ext n s s1"
    and k1: "claims s1 = claims s" and o1: "owned_map n s1 (Some a1)" by blast
  have oc: "owned_claim n s1 q" using owned_claim_same [OF o e1 k1] .
  from set_field_ok(1) [OF oc e1 o1] obtain s' where
    "set_Annotations s1 q (Some a1) = Some s'" "ext n s1 s'" "owned_claim n s' q"
    "\<forall>b. b \<noteq> q \<longrightarrow> claims s' b = claims s1 b" by blast
  then show "\<exists>s'. add_Annotations s q a = Some s' \<and> ext n s s' \<and> owned_claim n s' q
              \<and> (\<forall>b. b \<noteq> q \<longrightarrow> claims s' b = claims s b)"
    using obj(1) ad k1 ext_trans [OF e1] by (auto simp: add_Annotations_def)
  from addToMap_ok [OF n obj(3) r] obtain s2 a2 where
    ad2: "addToMap s (Labels obj) a = Some (s2, Some a2)" and e2: "ext n s s2"
    and k2: "claims s2 = claims s" and o2: "owned_map n s2 (Some a2)" by blast
  have oc2: "owned_claim n s2 q" using owned_claim_same [OF o e2 k2] .
  from set_field_ok(2) [OF oc2 e2 o2] obtain s' where
    "set_Labels s2 q (Some a2) = Some s'" "ext n s2 s'" "owned_claim n s' q"
    "\<forall>b. b \<noteq> q \<longrightarrow> claims s' b = claims s2 b" by blast
  then show "\<exists>s'. add_Labels s q a = Some s' \<and> ext n s s' \<and> owned_claim n s' q
              \<and> (\<forall>b. b \<noteq> q \<longrightarrow> claims s' b = claims s b)"
    using obj(1) ad2 k2 ext_trans [OF e2] by (auto simp: add_Labels_def)
qed

lemma applyUpdt_ok:
  assumes n: "n \<le> fresh s" and o: "owned_claim n s q"
    and ra: "readable s a" and rl: "readable s l"
  shows "\<exists>s'. applyUpdt s q a l = Some s' \<and> ext n s s' \<and> owned_claim n s' q
           \<and> (\<forall>b. b \<noteq> q \<longrightarrow> claims s' b = claims s b)"
proof -
  have "\<exists>s1. (if a \<noteq> None then add_Annotations s q a else Some s) = Some s1
          \<and> ext n s s1 \<and> owned_claim n s1 q \<and> (\<forall>b. b \<noteq> q \<longrightarrow> claims s1 b = claims s b)"
    using add_field_ok(1) [OF n o ra] o by (cases "a \<noteq> None") (simp_all add: ext_refl)
  then obtain s1 where s1: "(if a \<noteq> None then add_Annotations s q a else Some s) = Some s1"
    and e1: "ext n s s1" and o1: "owned_claim n s1 q"
    and k1: "\<forall>b. b \<noteq> q \<longrightarrow> claims s1 b = claims s b" by blast
  have n1: "n \<le> fresh s1" using n e1 by (simp add: ext_def)
  have rl1: "readable s1 l" using readable_ext [OF e1 rl] .
  have "\<exists>s'. (if l \<noteq> None then add_Labels s1 q l else Some s1) = Some s'
        \<and> ext n s1 s' \<and> owned_claim n s' q \<and> (\<forall>b. b \<noteq> q \<longrightarrow> claims s' b = claims s1 b)"
    using add_field_ok(2) [OF n1 o1 rl1] o1 by (cases "l \<noteq> None") (simp_all add: ext_refl)
  then obtain s' where s': "(if l \<noteq> None then add_Labels s1 q l else Some s1) = Some s'"
    and e2: "ext n s1 s'" and o2: "owned_claim n s' q"
    and k2: "\<forall>b. b \<noteq> q \<longrightarrow> claims s' b = claims s1 b" by blast
  have "applyUpdt s q a l = Some s'" unfolding applyUpdt_def s1 using s' by simp
  with ext_trans [OF e1 e2] o2 k1 k2 show ?thesis by simp
qed


lemma load_map_ok: "readable s m \<Longrightarrow> \<exists>v. load_map s m = Some v"
  by (cases m) auto

lemma load_ok:
  assumes "owned_claim n s q"
  shows "\<exists>v. load s q = Some v"
proof -
  from assms obtain obj where obj: "claims s q = Some obj"
    "owned_map n s (Annotations obj)" "owned_map n s (Labels obj)"
    by (auto simp: owned_claim_def split: option.splits)
  from load_map_ok [OF owned_map_readable [OF obj(2)]] obtain a where
    a: "load_map s (Annotations obj) = Some a" by blast
  from load_map_ok [OF owned_map_readable [OF obj(3)]] obtain l where
    l: "load_map s (Labels obj) = Some l" by blast
  show ?thesis by (simp add: load_def obj(1) a l)
qed

lemma new_map_ok:
  assumes "n \<le> fresh s" "new_map s m = (s', a)"
  shows "ext n s s' \<and> claims s' = claims s \<and> owned_map n s' a"
proof (cases m)
  case None
  with assms show ?thesis by (auto simp: ext_refl)
next
  case (Some x)
  obtain s1 a1 where al: "alloc_map s x = (s1, a1)" by (cases "alloc_map s x")
  with assms(2) Some have "s' = s1" "a = Some a1" by auto
  with alloc_map_ok [OF assms(1) al] show ?thesis by simp
qed

lemma new_claim_ok:
  assumes n: "n \<le> fresh s" and nc: "new_claim s v = (s', q)"
  shows "ext n s s' \<and> owned_claim n s' q \<and> (\<forall>b. b \<noteq> q \<longrightarrow> claims s' b = claims s b)"
proof -
  obtain s1 a where m1: "new_map s (Annotations v) = (s1, a)"
    by (cases "new_map s (Annotations v)")
  obtain s2 l where m2: "new_map s1 (Labels v) = (s2, l)"
    by (cases "new_map s1 (Labels v)")
  from new_map_ok [OF n m1] have e1: "ext n s s1" and k1: "claims s1 = claims s"
    and o1: "owned_map n s1 a" by simp_all
  have n1: "n \<le> fresh s1" using n e1 by (simp add: ext_def)
  from new_map_ok [OF n1 m2] have e2: "ext n s1 s2" and k2: "claims s2 = claims s1"
    and o2: "owned_map n s2 l" by simp_all
  have n2: "n \<le> fresh s2" using n1 e2 by (simp add: ext_def)
  from nc m1 m2 have al: "alloc_claim s2 (with_maps v a l) = (s', q)"
    by (simp add: new_claim_def)
  have "owned_map n s2 a" using owned_map_ext [OF e2 o1] .
  with alloc_claim_ok [OF n2 al] o2
  have r: "ext n s2 s'" "owned_claim n s' q" "\<forall>b. b \<noteq> q \<longrightarrow> claims s' b = claims s2 b"
    by simp_all
  have "ext n s s'" using ext_trans [OF ext_trans [OF e1 e2] r(1)] .
  with r(2,3) k1 k2 show ?thesis by simp
qed

lemma attempt_ok:
  assumes n: "n \<le> fresh s" and o: "owned_claim n s q"
    and p: "pvc < n" "claims s pvc = Some orig"
      "readable s (Annotations orig)" "readable s (Labels orig)"
    and ra: "readable s anno" and rl: "readable s label"
  shows "\<exists>r. attempt client pvc anno label s c q = Some r \<and> attempt_inv n s r"
proof -
  from applyUpdt_ok [OF n o ra rl] obtain s1 where
    ap: "applyUpdt s q anno label = Some s1" and e1: "ext n s s1"
    and o1: "owned_claim n s1 q" by blast
  have n1: "n \<le> fresh s1" using n e1 by (simp add: ext_def)
  from load_ok [OF o1] obtain v where v: "load s1 q = Some v" by blast
  have p1: "claims s1 pvc = Some orig" using e1 p(1,2) by (simp add: ext_def)
  have r1: "readable s1 (Annotations orig)" "readable s1 (Labels orig)"
    using readable_ext [OF e1] p(3,4) by auto
  obtain c1 r where up: "ClaimsUpdate client c (Namespace orig) v = (c1, r)"
    by (cases "ClaimsUpdate client c (Namespace orig) v")
  show ?thesis
  proof (cases r)
    case (Inr u)
    obtain s2 w where nc: "new_claim s1 u = (s2, w)" by (cases "new_claim s1 u")
    from new_claim_ok [OF n1 nc] ext_trans [OF e1] have "ext n s s2" by blast
    then show ?thesis by (simp add: attempt_def ap v p1 up Inr nc)
  next
    case (Inl e)
    show ?thesis
    proof (cases "IsConflict (Some e)")
      case False
      then show ?thesis using e1 o1 by (simp add: attempt_def ap v p1 up Inl)
    next
      case True
      obtain c2 r2 where g: "ClaimsGet client c1 (Namespace orig) (Name orig) = (c2, r2)"
        by (cases "ClaimsGet client c1 (Namespace orig) (Name orig)")
      show ?thesis
      proof (cases r2)
        case (Inr got)
        obtain s2 w where nc: "new_claim s1 got = (s2, w)" by (cases "new_claim s1 got")
        from new_claim_ok [OF n1 nc] ext_trans [OF e1]
        have "ext n s s2" "owned_claim n s2 w" by blast+
        then show ?thesis by (simp add: attempt_def ap v p1 up Inl True g Inr nc)
      next
        case (Inl e2)
        from DeepCopy_ok [OF n1 p1 r1] obtain s2 w where
          dc: "DeepCopy s1 pvc = Some (s2, w)" and e2: "ext n s1 s2"
          and o2: "owned_claim n s2 w" by blast
        have "ext n s s2" using ext_trans [OF e1 e2] .
        with o2 show ?thesis
          by (simp add: attempt_def ap v p1 up \<open>r = Inl e\<close> True g Inl dc)
      qed
    qed
  qed
qed

lemma PollImmediate_ok:
  assumes "n \<le> fresh s" "owned_claim n s q"
    "pvc < n" "claims s pvc = Some orig"
    "readable s (Annotations orig)" "readable s (Labels orig)"
    "readable s anno" "readable s label"
  shows "\<exists>s' c' r. PollImmediate ticks client pvc anno label s c q = Some (s', c', r)
           \<and> ext n s s'"
  using assms
proof (induction ticks arbitrary: s c q)
  case 0
  from attempt_ok [OF 0, where client = client and c = c] obtain r where
    r: "attempt client pvc anno label s c q = Some r" "attempt_inv n s r" by blast
  show ?case
  proof (cases r)
    case (Done s' c' u)
    with r show ?thesis by simp
  next
    case (Retry s' c' q')
    with r show ?thesis by simp
  qed
next
  case (Suc ticks)
  from attempt_ok [OF Suc.prems, where client = client and c = c] obtain r where
    r: "attempt client pvc anno label s c q = Some r" "attempt_inv n s r" by blast
  show ?case
  proof (cases r)
    case (Done s' c' u)
    with r show ?thesis by simp
  next
    case (Retry s' c' q')
    with r have e: "ext n s s'" and o: "owned_claim n s' q'" by simp_all
    have n': "n \<le> fresh s'" using Suc.prems(1) e by (simp add: ext_def)
    have p': "claims s' pvc = Some orig" using e Suc.prems(3,4) by (simp add: ext_def)
    from Suc.IH [OF n' o Suc.prems(3) p' readable_ext [OF e Suc.prems(5)]
        readable_ext [OF e Suc.prems(6)] readable_ext [OF e Suc.prems(7)]
        readable_ext [OF e Suc.prems(8)], where c = c']
    obtain s'' c'' r'' where
      po: "PollImmediate ticks client pvc anno label s' c' q' = Some (s'', c'', r'')"
      and e': "ext n s' s''" by blast
    have "PollImmediate (Suc ticks) client pvc anno label s c q = Some (s'', c'', r'')"
      using r(1) Retry po by simp
    moreover have "ext n s s''" using ext_trans [OF e e'] .
    ultimately show ?thesis by simp
  qed
qed

lemma valid_map_readable: "valid_map s m \<Longrightarrow> readable s m"
  by (cases m) auto

lemma load_map_below:
  "valid_map s m \<Longrightarrow> ext (fresh s) s s' \<Longrightarrow> load_map s' m = load_map s m"
  by (cases m) (auto simp: ext_def)

text \<open>
  Claim C9.  \<^verbatim>\<open>updatePVC\<close>, called with a valid claim pointer and valid (or \<^verbatim>\<open>nil\<close>)
  annotation and label maps, returns (it does not panic), and when it returns, every claim
  and every map that the store held before the call is as it was: all additions went to
  copies.  In particular the caller's claim reads as before.  When it returns an error,
  the pointer it returns is the caller's.
\<close>

theorem updatePVC_frame:
  assumes vp: "valid_claim s pvc" and va: "valid_map s anno" and vl: "valid_map s label"
  shows "\<exists>s' c' r e. updatePVC ticks client s c pvc anno label = Some (s', c', r, e)
           \<and> (\<forall>a. a < fresh s \<longrightarrow> claims s' a = claims s a \<and> maps s' a = maps s a)
           \<and> load s' pvc = load s pvc
           \<and> (e \<noteq> None \<longrightarrow> r = pvc)"
proof -
  from vp obtain orig where orig: "pvc < fresh s" "claims s pvc = Some orig"
    "valid_map s (Annotations orig)" "valid_map s (Labels orig)"
    by (auto simp: valid_claim_def split: option.splits)
  note ro = valid_map_readable [OF orig(3)] valid_map_readable [OF orig(4)]
  from DeepCopy_ok [OF le_refl orig(2) ro] obtain s0 q where
    dc: "DeepCopy s pvc = Some (s0, q)" and e0: "ext (fresh s) s s0"
    and o0: "owned_claim (fresh s) s0 q" by blast
  have n0: "fresh s \<le> fresh s0" using e0 by (simp add: ext_def)
  have p0: "claims s0 pvc = Some orig" using e0 orig(1,2) by (simp add: ext_def)
  from PollImmediate_ok [OF n0 o0 orig(1) p0 readable_ext [OF e0 ro(1)]
      readable_ext [OF e0 ro(2)] readable_ext [OF e0 valid_map_readable [OF va]]
      readable_ext [OF e0 valid_map_readable [OF vl]],
      where ticks = ticks and client = client and c = c]
  obtain s' c' r where
    po: "PollImmediate ticks client pvc anno label s0 c q = Some (s', c', r)"
    and e1: "ext (fresh s) s0 s'" by blast
  have e: "ext (fresh s) s s'" using ext_trans [OF e0 e1] .
  have frame: "\<forall>a. a < fresh s \<longrightarrow> claims s' a = claims s a \<and> maps s' a = maps s a"
    using e by (simp add: ext_def)
  have ld: "load s' pvc = load s pvc"
  proof -
    have "claims s' pvc = Some orig" using frame orig(1,2) by simp
    then show ?thesis
      using orig(2) load_map_below [OF orig(3) e] load_map_below [OF orig(4) e]
      by (simp add: load_def split: option.splits)
  qed
  show ?thesis
  proof (cases r)
    case None
    have "\<exists>e. updatePVC ticks client s c pvc anno label = Some (s', c', pvc, Some e)"
      by (simp add: updatePVC_def orig(2) dc po None)
    then obtain e where "updatePVC ticks client s c pvc anno label = Some (s', c', pvc, Some e)"
      by blast
    then show ?thesis using frame ld by simp
  next
    case (Some u)
    have "updatePVC ticks client s c pvc anno label = Some (s', c', u, None)"
      by (simp add: updatePVC_def orig(2) dc po Some)
    then show ?thesis using frame ld by simp
  qed
qed

theorem updatePVC_frame_witness:
  "valid_claim example_store 0 \<and> valid_map example_store (Some 2) \<and> valid_map example_store None
   \<and> (\<exists>s'. updatePVC 1 (scripted_client None (\<lambda>k. Some (StatusError StatusReasonConflict)))
              example_store 0 0 (Some 2) None
            = Some (s', 4, 0, Some (Wrapf ErrWaitTimeout (''error updating pvc %q'' @ [CHR 0x0A])
                                      [''default/golden-pvc'']))
          \<and> load s' 0 = load example_store 0)"
proof -
  let ?client = "scripted_client None (\<lambda>k. Some (StatusError StatusReasonConflict))"
  have v: "valid_claim example_store 0" "valid_map example_store (Some 2)"
    "valid_map example_store None"
    by (simp_all add: valid_claim_def example_store_def example_claim_def)
  have "\<exists>s'. updatePVC 1 ?client example_store 0 0 (Some 2) None
          = Some (s', 4, 0, Some (Wrapf ErrWaitTimeout (''error updating pvc %q'' @ [CHR 0x0A])
                                    [''default/golden-pvc'']))"
    by (simp add: updatePVC_def example_store_def example_claim_def DeepCopy_def alloc_map_def
        alloc_claim_def with_maps_def attempt_def applyUpdt_def add_Annotations_def
        add_Labels_def addToMap_def set_Annotations_def set_Labels_def load_def
        scripted_client_def new_claim_def)
  then obtain s' where
    u: "updatePVC 1 ?client example_store 0 0 (Some 2) None
          = Some (s', 4, 0, Some (Wrapf ErrWaitTimeout (''error updating pvc %q'' @ [CHR 0x0A])
                                    [''default/golden-pvc'']))"
    by blast
  from updatePVC_frame [OF v, where ticks = 1 and c = 0 and client = ?client] u
  have "load s' 0 = load example_store 0" by simp
  with v u show ?thesis by blast
qed

subsection \<open>The clone request annotation\<close>

lemma splitSep_nonempty: "splitSep s sep \<noteq> []"
  by (subst splitSep.simps) (simp split: option.splits)

text \<open>For a separator that is not empty, a string splits into fewer than two parts
  exactly when it does not contain the separator.\<close>

lemma splitSep_short:
  "sep \<noteq> [] \<Longrightarrow> (length (splitSep s sep) < 2) = (Index s sep = None)"
  by (subst splitSep.simps) (simp add: splitSep_nonempty split: option.splits)

text \<open>
  Claim C10.  When the clone request annotation splits on the delimiter into fewer than
  two parts, \<^verbatim>\<open>ParseSourcePvcAnnotation\<close> returns two empty strings; and when it does so
  on the delimiter \<^verbatim>\<open>/\<close>, \<^verbatim>\<open>CreateCloneSourcePod\<close> returns no pod and the error
  \<^verbatim>\<open>Bad CloneRequest Annotation\<close>, and the cluster client is as it was, whatever the client
  is: no pod creation was attempted.
\<close>

theorem CreateCloneSourcePod_bad_annotation:
  "(length (Split sourcePvcAnno del) < 2 \<longrightarrow>
      ParseSourcePvcAnnotation sourcePvcAnno del = ([], []))
   \<and> (length (Split cr ''/'') < 2 \<longrightarrow>
      CreateCloneSourcePod K client c image_ref verbose pullPolicy cr pvc
        = (c, None, Some (Errorf ''Bad CloneRequest Annotation'' [])))"
  by (simp add: ParseSourcePvcAnnotation_def CreateCloneSourcePod_def)

theorem CreateCloneSourcePod_bad_annotation_witness:
  "length (Split ''golden-pvc'' ''/'') < 2
   \<and> ParseSourcePvcAnnotation ''golden-pvc'' ''/'' = ([], [])
   \<and> CreateCloneSourcePod example_names (scripted_client None (\<lambda>k. None)) 0
         ''cdi-cloner'' ''1'' ''IfNotPresent'' ''golden-pvc'' (example_claim None None)
       = (0, None, Some (Errorf ''Bad CloneRequest Annotation'' []))"
proof -
  have short: "length (Split ''golden-pvc'' ''/'') < 2"
    by (simp add: Split_def splitSep.simps)
  from short CreateCloneSourcePod_bad_annotation
    [of "''golden-pvc''" "''/''" "''golden-pvc''" example_names
        "scripted_client None (\<lambda>k. None)" 0 "''cdi-cloner''" "''1''" "''IfNotPresent''"
        "example_claim None None"]
  show ?thesis by simp
qed

section \<open>Properties of the importer\<close>

subsection \<open>The Copier against the rows of \<^verbatim>\<open>Test_copy\<close>\<close>

text \<open>The Copier as modelled passes every row of \<^verbatim>\<open>Test_copy\<close>, from any process, for any
  expected format and any random bytes.\<close>

lemma Test_copy_passes: "list_all (Test_copy_row expected rnd p) Test_copy_rows"
  by (simp add: Test_copy_rows_def Test_copy_row_def replaceQEMUOperations_def copy_def
      NewFakeQEMUOperations_def Let_def)

text \<open>The temporary name is sixteen characters longer than the name it is made from, as
  \<^verbatim>\<open>Test_randTmpName\<close> expects.\<close>

lemma randTmpName_length: "length rnd = 8 \<Longrightarrow> length (randTmpName src rnd) = length src + 16"
  by (simp add: randTmpName_def EncodeToString_def length_concat o_def sum_list_triv)

subsection \<open>Where the conversion tool comes from\<close>

text \<open>
  Claim C2, amended.  The conversion tool is held in the package variable
  \<^verbatim>\<open>qemuOperations\<close>.  \<^verbatim>\<open>replaceQEMUOperations\<close> with no replacement just runs the
  callback.  With a replacement it runs the callback on the process whose variable holds
  the replacement, returns what the callback computed, and leaves the variable holding
  what it held before the call, whatever the callback did to it.  The Copier, which takes
  no tool among its arguments, run as the callback on content that needs conversion,
  converts and validates with the replacement.
\<close>

theorem replaceQEMUOperations_swaps:
  "replaceQEMUOperations None f p = f p
   \<and> qemuOperations (fst (replaceQEMUOperations (Some r) f p)) = qemuOperations p
   \<and> snd (replaceQEMUOperations (Some r) f p) = snd (f (p\<lparr>qemuOperations := r\<rparr>))
   \<and> snd (replaceQEMUOperations (Some r) (copy expected rnd (Bytes b) out True) p)
       = (case ConvertQcow2ToRaw r (randTmpName out rnd) out of
            Some e \<Rightarrow> Some (ConvertError e)
          | None \<Rightarrow>
              (case Validate r out expected of
                 Some e \<Rightarrow> Some (ValidateError e)
               | None \<Rightarrow> None))"
  by (simp add: replaceQEMUOperations_def copy_def Let_def split: prod.splits option.splits)

text \<open>
  Claim C2 as the specification states it, that no operation of the pipeline finds the
  conversion tool by reading process-wide mutable state, does not hold: started in the
  same process with the same arguments, the Copier succeeds under one tool installed in
  the package variable and fails under another.  The two tools are those of the second
  and third rows of \<^verbatim>\<open>Test_copy\<close>.
\<close>

theorem copy_reads_process_variable:
  "snd (replaceQEMUOperations
          (Some (NewFakeQEMUOperations None (Some (Errorf ''Shouldn't get this'' [])) None))
          (copy ''raw'' ''01234567'' (Bytes ''QFI'') ''testinvalidfile'' True)
          (example_process NewQEMUAllErrors)) = None
   \<and> snd (replaceQEMUOperations
          (Some (NewFakeQEMUOperations None None (Some (Errorf ''invalid format'' []))))
          (copy ''raw'' ''01234567'' (Bytes ''QFI'') ''testinvalidfile'' True)
          (example_process NewQEMUAllErrors)) = Some (ValidateError (Errorf ''invalid format'' []))"
  by (simp add: replaceQEMUOperations_def copy_def Let_def NewFakeQEMUOperations_def
      example_process_def split: prod.splits)

subsection \<open>Typed failures of the convert path\<close>

text \<open>A source that fails with a short read gives \<open>IOError\<close>, on either path, and the
  tool is not called.\<close>

lemma copy_short_read:
  "snd (copy expected rnd (ShortRead b) out conv p) = Some IOError
   \<and> calls (fst (copy expected rnd (ShortRead b) out conv p)) = calls p"
  by (simp add: copy_def Let_def)

text \<open>The direct path does not call the tool and does not fail once the source has been
  read.\<close>

lemma copy_direct:
  "snd (copy expected rnd (Bytes b) out False p) = None
   \<and> calls (fst (copy expected rnd (Bytes b) out False p)) = calls p
   \<and> files (fst (copy expected rnd (Bytes b) out False p)) out = Some b"
  by (simp add: copy_def Let_def)

text \<open>When the bytes of the source have been read, the outcome of the convert path is
  decided by the answers of the tool.\<close>

lemma copy_convert_outcome:
  "(ConvertQcow2ToRaw (qemuOperations p) (randTmpName out rnd) out = Some e \<longrightarrow>
      snd (copy expected rnd (Bytes b) out True p) = Some (ConvertError e))
   \<and> (ConvertQcow2ToRaw (qemuOperations p) (randTmpName out rnd) out = None \<and>
      Validate (qemuOperations p) out expected = Some e \<longrightarrow>
      snd (copy expected rnd (Bytes b) out True p) = Some (ValidateError e))
   \<and> (ConvertQcow2ToRaw (qemuOperations p) (randTmpName out rnd) out = None \<and>
      Validate (qemuOperations p) out expected = None \<longrightarrow>
      snd (copy expected rnd (Bytes b) out True p) = None)
   \<and> calls (fst (copy expected rnd (Bytes b) out True p))
       = calls p @ CallConvert (randTmpName out rnd) out
           # (if ConvertQcow2ToRaw (qemuOperations p) (randTmpName out rnd) out = None
              then [CallValidate out expected] else [])
   \<and> (ConvertQcow2ToRawStream (qemuOperations p) srcURL out = Some e \<longrightarrow>
      snd (copy_stream expected srcURL out p) = Some (ConvertError e))
   \<and> (ConvertQcow2ToRawStream (qemuOperations p) srcURL out = None \<and>
      Validate (qemuOperations p) out expected = Some e \<longrightarrow>
      snd (copy_stream expected srcURL out p) = Some (ValidateError e))
   \<and> (ConvertQcow2ToRawStream (qemuOperations p) srcURL out = None \<and>
      Validate (qemuOperations p) out expected = None \<longrightarrow>
      snd (copy_stream expected srcURL out p) = None)
   \<and> calls (fst (copy_stream expected srcURL out p))
       = calls p @ CallConvertStream srcURL out
           # (if ConvertQcow2ToRawStream (qemuOperations p) srcURL out = None
              then [CallValidate out expected] else [])"
  by (simp add: copy_def copy_stream_def Let_def split: option.splits)

text \<open>
  Claim C6.  On content that needs conversion, read from its source to the end, the Copier
  returns \<open>ConvertError\<close>, carrying what the tool reported, exactly when \<open>Convert\<close>
  (\<open>ConvertStream\<close> in the streaming variant) fails; it returns \<open>ValidateError\<close> exactly
  when the conversion succeeds and \<open>Validate\<close> fails; and it succeeds exactly when both
  succeed.  The calls it makes to the tool are one conversion and, if and only if the
  conversion succeeded, one validation after it: nothing is retried.
\<close>

theorem copy_typed_errors:
  "((snd (copy expected rnd (Bytes b) out True p) = Some (ConvertError e)) =
      (ConvertQcow2ToRaw (qemuOperations p) (randTmpName out rnd) out = Some e))
   \<and> ((snd (copy expected rnd (Bytes b) out True p) = Some (ValidateError e)) =
      (ConvertQcow2ToRaw (qemuOperations p) (randTmpName out rnd) out = None
       \<and> Validate (qemuOperations p) out expected = Some e))
   \<and> ((snd (copy expected rnd (Bytes b) out True p) = None) =
      (ConvertQcow2ToRaw (qemuOperations p) (randTmpName out rnd) out = None
       \<and> Validate (qemuOperations p) out expected = None))
   \<and> calls (fst (copy expected rnd (Bytes b) out True p))
       = calls p @ CallConvert (randTmpName out rnd) out
           # (if ConvertQcow2ToRaw (qemuOperations p) (randTmpName out rnd) out = None
              then [CallValidate out expected] else [])
   \<and> ((snd (copy_stream expected srcURL out p) = Some (ConvertError e)) =
      (ConvertQcow2ToRawStream (qemuOperations p) srcURL out = Some e))
   \<and> ((snd (copy_stream expected srcURL out p) = Some (ValidateError e)) =
      (ConvertQcow2ToRawStream (qemuOperations p) srcURL out = None
       \<and> Validate (qemuOperations p) out expected = Some e))
   \<and> ((snd (copy_stream expected srcURL out p) = None) =
      (ConvertQcow2ToRawStream (qemuOperations p) srcURL out = None
       \<and> Validate (qemuOperations p) out expected = None))
   \<and> calls (fst (copy_stream expected srcURL out p))
       = calls p @ CallConvertStream srcURL out
           # (if ConvertQcow2ToRawStream (qemuOperations p) srcURL out = None
              then [CallValidate out expected] else [])"
  by (auto simp: copy_def copy_stream_def Let_def split: option.splits)

theorem copy_typed_errors_witness:
  "snd (copy ''raw'' ''01234567'' (Bytes ''QFI'') ''testinvalidfile'' True
          (example_process (NewFakeQEMUOperations (Some (Errorf ''exit 1'' [])) None None)))
     = Some (ConvertError (Errorf ''exit 1'' []))
   \<and> snd (copy ''raw'' ''01234567'' (Bytes ''QFI'') ''testinvalidfile'' True
          (example_process (NewFakeQEMUOperations None None (Some (Errorf ''invalid format'' [])))))
     = Some (ValidateError (Errorf ''invalid format'' []))
   \<and> snd (copy ''raw'' ''01234567'' (Bytes ''QFI'') ''testqcow2file'' True
          (example_process (NewFakeQEMUOperations None (Some (Errorf ''Shouldn't get this'' [])) None)))
     = None
   \<and> calls (fst (copy ''raw'' ''01234567'' (Bytes ''QFI'') ''testqcow2file'' True
          (example_process (NewFakeQEMUOperations None (Some (Errorf ''Shouldn't get this'' [])) None))))
     = [CallConvert (randTmpName ''testqcow2file'' ''01234567'') ''testqcow2file'',
        CallValidate ''testqcow2file'' ''raw'']
   \<and> snd (copy_stream ''raw'' ''http://localhost:9999/cirros-qcow2.img'' ''cirros-qcow2.raw''
          (example_process (NewFakeQEMUOperations None (Some (Errorf ''exit 1'' [])) None)))
     = Some (ConvertError (Errorf ''exit 1'' []))
   \<and> snd (copy_stream ''raw'' ''http://localhost:9999/cirros-qcow2.img'' ''cirros-qcow2.raw''
          (example_process (NewFakeQEMUOperations None None (Some (Errorf ''invalid image'' [])))))
     = Some (ValidateError (Errorf ''invalid image'' []))
   \<and> snd (copy_stream ''raw'' ''http://localhost:9999/cirros-qcow2.img'' ''cirros-qcow2.raw''
          (example_process (NewFakeQEMUOperations (Some (Errorf ''should not be called'' [])) None None)))
     = None"
proof -
  let ?url = "''http://localhost:9999/cirros-qcow2.img''"
  let ?convert_fails = "example_process (NewFakeQEMUOperations (Some (Errorf ''exit 1'' [])) None None)"
  let ?invalid = "example_process (NewFakeQEMUOperations None None (Some (Errorf ''invalid format'' [])))"
  let ?good = "example_process (NewFakeQEMUOperations None (Some (Errorf ''Shouldn't get this'' [])) None)"
  let ?stream_fails = "example_process (NewFakeQEMUOperations None (Some (Errorf ''exit 1'' [])) None)"
  let ?stream_invalid = "example_process (NewFakeQEMUOperations None None (Some (Errorf ''invalid image'' [])))"
  let ?stream_good = "example_process (NewFakeQEMUOperations (Some (Errorf ''should not be called'' [])) None None)"
  note ev = example_process_def NewFakeQEMUOperations_def
  from copy_typed_errors [where p = ?convert_fails and e = "Errorf ''exit 1'' []"
      and out = "''testinvalidfile''" and rnd = "''01234567''" and expected = "''raw''"
      and b = "''QFI''"]
  have 1: "snd (copy ''raw'' ''01234567'' (Bytes ''QFI'') ''testinvalidfile'' True ?convert_fails)
             = Some (ConvertError (Errorf ''exit 1'' []))"
    by (simp add: ev)
  from copy_typed_errors [where p = ?invalid and e = "Errorf ''invalid format'' []"
      and out = "''testinvalidfile''" and rnd = "''01234567''" and expected = "''raw''"
      and b = "''QFI''"]
  have 2: "snd (copy ''raw'' ''01234567'' (Bytes ''QFI'') ''testinvalidfile'' True ?invalid)
             = Some (ValidateError (Errorf ''invalid format'' []))"
    by (simp add: ev)
  from copy_typed_errors [where p = ?good
      and out = "''testqcow2file''" and rnd = "''01234567''" and expected = "''raw''"
      and b = "''QFI''"]
  have 3: "snd (copy ''raw'' ''01234567'' (Bytes ''QFI'') ''testqcow2file'' True ?good) = None"
    and log: "calls (fst (copy ''raw'' ''01234567'' (Bytes ''QFI'') ''testqcow2file'' True ?good))
      = [CallConvert (randTmpName ''testqcow2file'' ''01234567'') ''testqcow2file'',
         CallValidate ''testqcow2file'' ''raw'']"
    by (simp_all add: ev)
  from copy_typed_errors [where p = ?stream_fails and e = "Errorf ''exit 1'' []"
      and out = "''cirros-qcow2.raw''" and srcURL = ?url and expected = "''raw''"]
  have 4: "snd (copy_stream ''raw'' ?url ''cirros-qcow2.raw'' ?stream_fails)
             = Some (ConvertError (Errorf ''exit 1'' []))"
    by (simp add: ev)
  from copy_typed_errors [where p = ?stream_invalid and e = "Errorf ''invalid image'' []"
      and out = "''cirros-qcow2.raw''" and srcURL = ?url and expected = "''raw''"]
  have 5: "snd (copy_stream ''raw'' ?url ''cirros-qcow2.raw'' ?stream_invalid)
             = Some (ValidateError (Errorf ''invalid image'' []))"
    by (simp add: ev)
  from copy_typed_errors [where p = ?stream_good
      and out = "''cirros-qcow2.raw''" and srcURL = ?url and expected = "''raw''"]
  have 6: "snd (copy_stream ''raw'' ?url ''cirros-qcow2.raw'' ?stream_good) = None"
    by (simp add: ev)
  from 1 2 3 log 4 5 6 show ?thesis by blast
qed

subsection \<open>The chain of a disk image on a local file\<close>

text \<open>Both ways in which the tests write the endpoint of a local file parse to the file
  scheme and the path of the file.\<close>

lemma ParseEndpoint_file:
  assumes "\<not> prefix ''//'' path" and "Index path ''?'' = None"
  shows "ParseEndpoint P (''file:'' @ path)
           = Inr \<lparr> EpScheme = SchemeFile, EpLocation = path, EpQuery = None \<rparr>"
    and "ParseEndpoint P (''file://'' @ path)
           = Inr \<lparr> EpScheme = SchemeFile, EpLocation = path, EpQuery = None \<rparr>"
  using assms by (simp_all add: ParseEndpoint_def scheme_of_def Let_def)

lemma build_no_decode:
  assumes "sniff P (take (MaxExpectedHdrSize P) cur) = Qcow2"
  shows "build d P dec chain cur =
           Inr (chain @ [\<lparr> rdrType = Replay, captured = take (MaxExpectedHdrSize P) cur,
                            live = drop (MaxExpectedHdrSize P) cur \<rparr>],
                take (MaxExpectedHdrSize P) cur, True)"
  using assms by (cases d) (simp_all add: Let_def)

text \<open>The chain builder as modelled gives what the other rows of
  \<^verbatim>\<open>Test_dataStream_constructReaders\<close> want: two links for raw content, four for content
  under one layer of gzip or xz, and none when the file is missing.\<close>

lemma build_raw:
  assumes "sniff P (take (MaxExpectedHdrSize P) cur) = Raw"
  shows "build d P dec chain cur =
           Inr (chain @ [\<lparr> rdrType = Replay, captured = take (MaxExpectedHdrSize P) cur,
                            live = drop (MaxExpectedHdrSize P) cur \<rparr>],
                take (MaxExpectedHdrSize P) cur, False)"
  using assms by (cases d) (simp_all add: Let_def)

lemma constructReaders_other_rows:
  assumes "url ds = Some u" and "EpScheme u = SchemeFile"
  shows "LocalFiles w (EpLocation u) = None \<Longrightarrow>
           Readers ds = [] \<Longrightarrow> Readers (fst (constructReaders P dec w ds)) = []"
    and "LocalFiles w (EpLocation u) = Some content \<Longrightarrow>
           sniff P (take (MaxExpectedHdrSize P) content) = Raw \<Longrightarrow>
           map rdrType (Readers (fst (constructReaders P dec w ds))) = [Base, Replay]"
    and "LocalFiles w (EpLocation u) = Some content \<Longrightarrow>
           sniff P (take (MaxExpectedHdrSize P) content) = f \<Longrightarrow> f = Gzip \<or> f = Xz \<Longrightarrow>
           dec f content = Some plain \<Longrightarrow>
           sniff P (take (MaxExpectedHdrSize P) plain) = Raw \<Longrightarrow> MaxNesting P = Suc d \<Longrightarrow>
           map rdrType (Readers (fst (constructReaders P dec w ds)))
             = [Base, Replay, stage_of f, Replay]"
proof -
  show "LocalFiles w (EpLocation u) = None \<Longrightarrow>
           Readers ds = [] \<Longrightarrow> Readers (fst (constructReaders P dec w ds)) = []"
    using assms by (simp add: constructReaders_def dataStreamSelector_def)
  show "LocalFiles w (EpLocation u) = Some content \<Longrightarrow>
           sniff P (take (MaxExpectedHdrSize P) content) = Raw \<Longrightarrow>
           map rdrType (Readers (fst (constructReaders P dec w ds))) = [Base, Replay]"
    using assms by (simp add: constructReaders_def dataStreamSelector_def build_raw)
  show "LocalFiles w (EpLocation u) = Some content \<Longrightarrow>
           sniff P (take (MaxExpectedHdrSize P) content) = f \<Longrightarrow> f = Gzip \<or> f = Xz \<Longrightarrow>
           dec f content = Some plain \<Longrightarrow>
           sniff P (take (MaxExpectedHdrSize P) plain) = Raw \<Longrightarrow> MaxNesting P = Suc d \<Longrightarrow>
           map rdrType (Readers (fst (constructReaders P dec w ds)))
             = [Base, Replay, stage_of f, Replay]"
    using assms
    by (auto simp: constructReaders_def dataStreamSelector_def build_raw Let_def)
qed

text \<open>
  Claim C5.  For a file endpoint, without credentials, whose file exists and whose header
  carries the signature of the disk-container format and none of gzip, xz and tar, the
  chain that \<^verbatim>\<open>createDataStream\<close> builds has exactly two links: the base source and one
  replay buffer.
\<close>

theorem createDataStream_disk_image_chain:
  assumes "ParseEndpoint P ep = Inr u" and "EpScheme u = SchemeFile"
    and "LocalFiles w (EpLocation u) = Some content"
    and "matches (Qcow2Signature P) (take (MaxExpectedHdrSize P) content)"
    and "\<not> matches (GzipSignature P) (take (MaxExpectedHdrSize P) content)"
    and "\<not> matches (XzSignature P) (take (MaxExpectedHdrSize P) content)"
    and "\<not> matches (TarSignature P) (take (MaxExpectedHdrSize P) content)"
  shows "length (Readers (createDataStream P dec w ep [] [])) = 2
         \<and> map rdrType (Readers (createDataStream P dec w ep [] [])) = [Base, Replay]"
proof -
  have s: "sniff P (take (MaxExpectedHdrSize P) content) = Qcow2"
    using assms(4-7) by (simp add: sniff_def)
  have sel: "dataStreamSelector w u [] [] = Inr content"
    using assms(2,3) by (simp add: dataStreamSelector_def)
  show ?thesis
    by (simp add: createDataStream_def constructReaders_def assms(1) sel build_no_decode [OF s])
qed

theorem createDataStream_disk_image_chain_witness:
  "ParseEndpoint example_params ''file:/images/cirros.img''
     = Inr \<lparr> EpScheme = SchemeFile, EpLocation = ''/images/cirros.img'', EpQuery = None \<rparr>
   \<and> ParseEndpoint example_params ''file:///images/cirros.img''
     = Inr \<lparr> EpScheme = SchemeFile, EpLocation = ''/images/cirros.img'', EpQuery = None \<rparr>
   \<and> LocalFiles example_sources ''/images/cirros.img'' = Some (''QFI'' @ [CHR 0xFB] @ ''disk'')
   \<and> sniff example_params (take 512 (''QFI'' @ [CHR 0xFB] @ ''disk'')) = Qcow2
   \<and> map rdrType (Readers (createDataStream example_params (\<lambda>f s. None) example_sources
         ''file:/images/cirros.img'' [] [])) = [Base, Replay]
   \<and> map rdrType (Readers (createDataStream example_params (\<lambda>f s. None) example_sources
         ''file:///images/cirros.img'' [] [])) = [Base, Replay]"
proof -
  let ?u = "\<lparr> EpScheme = SchemeFile, EpLocation = ''/images/cirros.img'', EpQuery = None \<rparr>"
  let ?content = "''QFI'' @ [CHR 0xFB] @ ''disk''"
  have p: "ParseEndpoint example_params ''file:/images/cirros.img'' = Inr ?u"
    by (simp add: ParseEndpoint_def scheme_of_def example_params_def)
  have p': "ParseEndpoint example_params ''file:///images/cirros.img'' = Inr ?u"
    by (simp add: ParseEndpoint_def scheme_of_def example_params_def)
  have f: "LocalFiles example_sources (EpLocation ?u) = Some ?content"
    by (simp add: example_sources_def)
  have m: "matches (Qcow2Signature example_params) (take (MaxExpectedHdrSize example_params) ?content)"
    "\<not> matches (GzipSignature example_params) (take (MaxExpectedHdrSize example_params) ?content)"
    "\<not> matches (XzSignature example_params) (take (MaxExpectedHdrSize example_params) ?content)"
    "\<not> matches (TarSignature example_params) (take (MaxExpectedHdrSize example_params) ?content)"
    by (simp_all add: matches_def example_params_def)
  have s: "sniff example_params (take 512 ?content) = Qcow2"
    using m by (simp add: sniff_def example_params_def)
  from createDataStream_disk_image_chain [OF p _ f m, where dec = "\<lambda>f s. None"]
  have 1: "map rdrType (Readers (createDataStream example_params (\<lambda>f s. None) example_sources
         ''file:/images/cirros.img'' [] [])) = [Base, Replay]"
    by simp
  from createDataStream_disk_image_chain [OF p' _ f m, where dec = "\<lambda>f s. None"]
  have 2: "map rdrType (Readers (createDataStream example_params (\<lambda>f s. None) example_sources
         ''file:///images/cirros.img'' [] [])) = [Base, Replay]"
    by simp
  from p p' f s 1 2 show ?thesis by simp
qed

end
